theory Spec2Isabelle
  imports Complex_Main
begin

section \<open>Numbers\<close>

text \<open>
  The library computes on JavaScript numbers held in typed arrays.  A number is modelled as
  a real, one of the two infinities, or NaN.  Finite arithmetic is exact: the rounding of
  IEEE 754 operations, the rounding of a store into a \<^verbatim>\<open>Float32Array\<close> and overflow
  are not modelled, and the two zeros are one value (a division by zero takes the sign of
  the dividend).  Everything proved below is a statement about this exact-arithmetic reading
  of the code; the special values follow the language: a comparison with NaN is false,
  \<^verbatim>\<open>0/0\<close> and \<^verbatim>\<open>0 * Infinity\<close> are NaN, \<^verbatim>\<open>x/0\<close> is infinite.
\<close>

datatype number = Fin real | PInf | NInf | NaN

instantiation number :: "{uminus, plus, minus, times, divide, abs, ord}"
begin

fun uminus_number :: "number \<Rightarrow> number" where
  "uminus_number (Fin a) = Fin (- a)"
| "uminus_number PInf = NInf"
| "uminus_number NInf = PInf"
| "uminus_number NaN = NaN"

fun plus_number :: "number \<Rightarrow> number \<Rightarrow> number" where
  "plus_number (Fin a) (Fin b) = Fin (a + b)"
| "plus_number NaN _ = NaN"
| "plus_number _ NaN = NaN"
| "plus_number PInf NInf = NaN"
| "plus_number NInf PInf = NaN"
| "plus_number PInf _ = PInf"
| "plus_number _ PInf = PInf"
| "plus_number NInf _ = NInf"
| "plus_number _ NInf = NInf"

definition minus_number :: "number \<Rightarrow> number \<Rightarrow> number" where
  "minus_number a b = a + (- b)"

fun times_number :: "number \<Rightarrow> number \<Rightarrow> number" where
  "times_number (Fin a) (Fin b) = Fin (a * b)"
| "times_number NaN _ = NaN"
| "times_number _ NaN = NaN"
| "times_number (Fin a) PInf = (if a = 0 then NaN else if 0 < a then PInf else NInf)"
| "times_number (Fin a) NInf = (if a = 0 then NaN else if 0 < a then NInf else PInf)"
| "times_number PInf (Fin b) = (if b = 0 then NaN else if 0 < b then PInf else NInf)"
| "times_number NInf (Fin b) = (if b = 0 then NaN else if 0 < b then NInf else PInf)"
| "times_number PInf PInf = PInf"
| "times_number PInf NInf = NInf"
| "times_number NInf PInf = NInf"
| "times_number NInf NInf = PInf"

fun divide_number :: "number \<Rightarrow> number \<Rightarrow> number" where
  "divide_number (Fin a) (Fin b) =
     (if b = 0 then (if a = 0 then NaN else if 0 < a then PInf else NInf) else Fin (a / b))"
| "divide_number NaN _ = NaN"
| "divide_number _ NaN = NaN"
| "divide_number (Fin a) _ = Fin 0"
| "divide_number PInf (Fin b) = (if 0 \<le> b then PInf else NInf)"
| "divide_number NInf (Fin b) = (if 0 \<le> b then NInf else PInf)"
| "divide_number _ _ = NaN"

fun abs_number :: "number \<Rightarrow> number" where
  "abs_number (Fin a) = Fin \<bar>a\<bar>"
| "abs_number PInf = PInf"
| "abs_number NInf = PInf"
| "abs_number NaN = NaN"

fun less_number :: "number \<Rightarrow> number \<Rightarrow> bool" where
  "less_number (Fin a) (Fin b) = (a < b)"
| "less_number NaN _ = False"
| "less_number _ NaN = False"
| "less_number _ NInf = False"
| "less_number PInf _ = False"
| "less_number NInf _ = True"
| "less_number (Fin a) PInf = True"

fun less_eq_number :: "number \<Rightarrow> number \<Rightarrow> bool" where
  "less_eq_number (Fin a) (Fin b) = (a \<le> b)"
| "less_eq_number NaN _ = False"
| "less_eq_number _ NaN = False"
| "less_eq_number NInf _ = True"
| "less_eq_number _ PInf = True"
| "less_eq_number _ _ = False"

instance ..

end

instantiation number :: inverse
begin

definition inverse_number :: "number \<Rightarrow> number" where
  "inverse_number a = divide (Fin 1) a"

instance ..

end

text \<open>Truthiness of a number (\<^verbatim>\<open>w || 1.0\<close>, \<^verbatim>\<open>dot ? ... : 0\<close>): zero and NaN are falsy.\<close>

fun truthy :: "number \<Rightarrow> bool" where
  "truthy (Fin a) = (a \<noteq> 0)"
| "truthy NaN = False"
| "truthy _ = True"

text \<open>Strict equality \<^verbatim>\<open>===\<close> on numbers: NaN differs from everything, itself included.\<close>

fun strict_eq :: "number \<Rightarrow> number \<Rightarrow> bool" where
  "strict_eq NaN _ = False"
| "strict_eq _ NaN = False"
| "strict_eq a b = (a = b)"

definition Math_PI :: number where
  "Math_PI = Fin pi"

fun Math_sqrt :: "number \<Rightarrow> number" where
  "Math_sqrt (Fin a) = (if a < 0 then NaN else Fin (sqrt a))"
| "Math_sqrt PInf = PInf"
| "Math_sqrt _ = NaN"

fun Math_sin :: "number \<Rightarrow> number" where
  "Math_sin (Fin a) = Fin (sin a)"
| "Math_sin _ = NaN"

fun Math_cos :: "number \<Rightarrow> number" where
  "Math_cos (Fin a) = Fin (cos a)"
| "Math_cos _ = NaN"

fun Math_acos :: "number \<Rightarrow> number" where
  "Math_acos (Fin a) = (if - 1 \<le> a \<and> a \<le> 1 then Fin (arccos a) else NaN)"
| "Math_acos _ = NaN"

text \<open>\<^verbatim>\<open>Math.max\<close> of two numbers: NaN as soon as one argument is NaN.\<close>

fun Math_max :: "number \<Rightarrow> number \<Rightarrow> number" where
  "Math_max NaN _ = NaN"
| "Math_max _ NaN = NaN"
| "Math_max a b = (if a < b then b else a)"

text \<open>\<^verbatim>\<open>Math.min\<close> of two numbers, NaN likewise.\<close>

fun Math_min :: "number \<Rightarrow> number \<Rightarrow> number" where
  "Math_min NaN _ = NaN"
| "Math_min _ NaN = NaN"
| "Math_min a b = (if b < a then b else a)"

fun Math_ceil :: "number \<Rightarrow> number" where
  "Math_ceil (Fin a) = Fin (of_int \<lceil>a\<rceil>)"
| "Math_ceil a = a"

fun Math_floor :: "number \<Rightarrow> number" where
  "Math_floor (Fin a) = Fin (of_int \<lfloor>a\<rfloor>)"
| "Math_floor a = a"

text \<open>\<^verbatim>\<open>Math.round\<close> takes the nearest integer, and of two nearest integers the greater.\<close>

fun Math_round :: "number \<Rightarrow> number" where
  "Math_round (Fin a) = Fin (of_int \<lfloor>a + 1 / 2\<rfloor>)"
| "Math_round a = a"

fun Math_exp :: "number \<Rightarrow> number" where
  "Math_exp (Fin a) = Fin (exp a)"
| "Math_exp PInf = PInf"
| "Math_exp NInf = Fin 0"
| "Math_exp NaN = NaN"

fun Math_log :: "number \<Rightarrow> number" where
  "Math_log (Fin a) = (if a < 0 then NaN else if a = 0 then NInf else Fin (ln a))"
| "Math_log PInf = PInf"
| "Math_log _ = NaN"

text \<open>
  \<^verbatim>\<open>Math.atan2(y, x)\<close>: the angle of the point (x, y), in the interval from \<open>-\<pi>\<close> to \<open>\<pi>\<close>,
  with the values that the language fixes for infinite arguments.
\<close>

fun Math_atan2 :: "number \<Rightarrow> number \<Rightarrow> number" where
  "Math_atan2 NaN _ = NaN"
| "Math_atan2 _ NaN = NaN"
| "Math_atan2 PInf PInf = Fin (pi / 4)"
| "Math_atan2 PInf NInf = Fin (3 * pi / 4)"
| "Math_atan2 PInf (Fin x) = Fin (pi / 2)"
| "Math_atan2 NInf PInf = Fin (- pi / 4)"
| "Math_atan2 NInf NInf = Fin (- 3 * pi / 4)"
| "Math_atan2 NInf (Fin x) = Fin (- pi / 2)"
| "Math_atan2 (Fin y) PInf = Fin 0"
| "Math_atan2 (Fin y) NInf = (if 0 \<le> y then Fin pi else Fin (- pi))"
| "Math_atan2 (Fin y) (Fin x) =
     Fin (if 0 < x then arctan (y / x)
          else if x < 0 then (if 0 \<le> y then arctan (y / x) + pi else arctan (y / x) - pi)
          else if 0 < y then pi / 2
          else if y < 0 then - pi / 2
          else 0)"


section \<open>Typed arrays in a store\<close>

text \<open>
  Every vector, quaternion and matrix is a typed array that the caller owns and passes by
  reference; the same array may be passed as the output and as an input.  The store maps a
  reference to the array's contents.  A typed array has a fixed length: a write past the end
  is dropped, a read past the end gives \<^verbatim>\<open>undefined\<close>, which every arithmetic operation
  turns into NaN.
\<close>

type_synonym ref = nat
type_synonym store = "ref \<Rightarrow> number list"

definition rd :: "store \<Rightarrow> ref \<Rightarrow> nat \<Rightarrow> number" where
  "rd h p i = (if i < length (h p) then h p ! i else NaN)"

definition wr :: "store \<Rightarrow> ref \<Rightarrow> nat \<Rightarrow> number \<Rightarrow> store" where
  "wr h p i v = h(p := (h p)[i := v])"

text \<open>A store given by the arrays it holds; every other reference holds the empty array.\<close>

definition store_of :: "(ref \<times> number list) list \<Rightarrow> store" where
  "store_of bs p = (case map_of bs p of None \<Rightarrow> [] | Some xs \<Rightarrow> xs)"


section \<open>vec3\<close>

text \<open>
  The operations of the module that write an output array and read an input array, in the
  order of the source, with the scalar functions the theorems need.  Left out are the
  operations that allocate an array, that draw random numbers, and that read no array
  (\<^verbatim>\<open>set\<close>, \<^verbatim>\<open>zero\<close>): their output has no input to alias.
\<close>

definition vec3_length :: "ref \<Rightarrow> store \<Rightarrow> number" where
  "vec3_length a h =
     (let x = rd h a 0; y = rd h a 1; z = rd h a 2
      in Math_sqrt (x * x + y * y + z * z))"

definition vec3_copy :: "ref \<Rightarrow> ref \<Rightarrow> store \<Rightarrow> store" where
  "vec3_copy out a h =
     (let h1 = wr h out 0 (rd h a 0);
          h2 = wr h1 out 1 (rd h1 a 1);
          h3 = wr h2 out 2 (rd h2 a 2)
      in h3)"

definition vec3_add ::
  "ref \<Rightarrow> ref \<Rightarrow> ref \<Rightarrow> store \<Rightarrow> store" where
  "vec3_add out a b h =
     (let h1 = wr h out 0 (rd h a 0 + rd h b 0);
          h2 = wr h1 out 1 (rd h1 a 1 + rd h1 b 1);
          h3 = wr h2 out 2 (rd h2 a 2 + rd h2 b 2)
      in h3)"

definition vec3_subtract ::
  "ref \<Rightarrow> ref \<Rightarrow> ref \<Rightarrow> store \<Rightarrow> store" where
  "vec3_subtract out a b h =
     (let h1 = wr h out 0 (rd h a 0 - rd h b 0);
          h2 = wr h1 out 1 (rd h1 a 1 - rd h1 b 1);
          h3 = wr h2 out 2 (rd h2 a 2 - rd h2 b 2)
      in h3)"

definition vec3_multiply ::
  "ref \<Rightarrow> ref \<Rightarrow> ref \<Rightarrow> store \<Rightarrow> store" where
  "vec3_multiply out a b h =
     (let h1 = wr h out 0 (rd h a 0 * rd h b 0);
          h2 = wr h1 out 1 (rd h1 a 1 * rd h1 b 1);
          h3 = wr h2 out 2 (rd h2 a 2 * rd h2 b 2)
      in h3)"

definition vec3_divide ::
  "ref \<Rightarrow> ref \<Rightarrow> ref \<Rightarrow> store \<Rightarrow> store" where
  "vec3_divide out a b h =
     (let h1 = wr h out 0 (rd h a 0 / rd h b 0);
          h2 = wr h1 out 1 (rd h1 a 1 / rd h1 b 1);
          h3 = wr h2 out 2 (rd h2 a 2 / rd h2 b 2)
      in h3)"

definition vec3_ceil :: "ref \<Rightarrow> ref \<Rightarrow> store \<Rightarrow> store" where
  "vec3_ceil out a h =
     (let h1 = wr h out 0 (Math_ceil (rd h a 0));
          h2 = wr h1 out 1 (Math_ceil (rd h1 a 1));
          h3 = wr h2 out 2 (Math_ceil (rd h2 a 2))
      in h3)"

definition vec3_floor :: "ref \<Rightarrow> ref \<Rightarrow> store \<Rightarrow> store" where
  "vec3_floor out a h =
     (let h1 = wr h out 0 (Math_floor (rd h a 0));
          h2 = wr h1 out 1 (Math_floor (rd h1 a 1));
          h3 = wr h2 out 2 (Math_floor (rd h2 a 2))
      in h3)"

definition vec3_min ::
  "ref \<Rightarrow> ref \<Rightarrow> ref \<Rightarrow> store \<Rightarrow> store" where
  "vec3_min out a b h =
     (let h1 = wr h out 0 (Math_min (rd h a 0) (rd h b 0));
          h2 = wr h1 out 1 (Math_min (rd h1 a 1) (rd h1 b 1));
          h3 = wr h2 out 2 (Math_min (rd h2 a 2) (rd h2 b 2))
      in h3)"

definition vec3_max ::
  "ref \<Rightarrow> ref \<Rightarrow> ref \<Rightarrow> store \<Rightarrow> store" where
  "vec3_max out a b h =
     (let h1 = wr h out 0 (Math_max (rd h a 0) (rd h b 0));
          h2 = wr h1 out 1 (Math_max (rd h1 a 1) (rd h1 b 1));
          h3 = wr h2 out 2 (Math_max (rd h2 a 2) (rd h2 b 2))
      in h3)"

definition vec3_round :: "ref \<Rightarrow> ref \<Rightarrow> store \<Rightarrow> store" where
  "vec3_round out a h =
     (let h1 = wr h out 0 (Math_round (rd h a 0));
          h2 = wr h1 out 1 (Math_round (rd h1 a 1));
          h3 = wr h2 out 2 (Math_round (rd h2 a 2))
      in h3)"

definition vec3_scale ::
  "ref \<Rightarrow> ref \<Rightarrow> number \<Rightarrow> store \<Rightarrow> store" where
  "vec3_scale out a b h =
     (let h1 = wr h out 0 (rd h a 0 * b);
          h2 = wr h1 out 1 (rd h1 a 1 * b);
          h3 = wr h2 out 2 (rd h2 a 2 * b)
      in h3)"

definition vec3_scaleAndAdd ::
  "ref \<Rightarrow> ref \<Rightarrow> ref \<Rightarrow> number \<Rightarrow> store \<Rightarrow> store" where
  "vec3_scaleAndAdd out a b scale h =
     (let h1 = wr h out 0 (rd h a 0 + rd h b 0 * scale);
          h2 = wr h1 out 1 (rd h1 a 1 + rd h1 b 1 * scale);
          h3 = wr h2 out 2 (rd h2 a 2 + rd h2 b 2 * scale)
      in h3)"

definition vec3_squaredLength :: "ref \<Rightarrow> store \<Rightarrow> number" where
  "vec3_squaredLength a h =
     (let x = rd h a 0; y = rd h a 1; z = rd h a 2
      in x * x + y * y + z * z)"

definition vec3_negate :: "ref \<Rightarrow> ref \<Rightarrow> store \<Rightarrow> store" where
  "vec3_negate out a h =
     (let h1 = wr h out 0 (- rd h a 0);
          h2 = wr h1 out 1 (- rd h1 a 1);
          h3 = wr h2 out 2 (- rd h2 a 2)
      in h3)"

definition vec3_inverse :: "ref \<Rightarrow> ref \<Rightarrow> store \<Rightarrow> store" where
  "vec3_inverse out a h =
     (let h1 = wr h out 0 (Fin 1 / rd h a 0);
          h2 = wr h1 out 1 (Fin 1 / rd h1 a 1);
          h3 = wr h2 out 2 (Fin 1 / rd h2 a 2)
      in h3)"

definition vec3_normalize :: "ref \<Rightarrow> ref \<Rightarrow> store \<Rightarrow> store" where
  "vec3_normalize out a h =
     (let x = rd h a 0; y = rd h a 1; z = rd h a 2;
          len = x * x + y * y + z * z;
          len = (if len > Fin 0 then Fin 1 / Math_sqrt len else len);
          h1 = wr h out 0 (rd h a 0 * len);
          h2 = wr h1 out 1 (rd h1 a 1 * len);
          h3 = wr h2 out 2 (rd h2 a 2 * len)
      in h3)"

definition vec3_dot :: "ref \<Rightarrow> ref \<Rightarrow> store \<Rightarrow> number" where
  "vec3_dot a b h = rd h a 0 * rd h b 0 + rd h a 1 * rd h b 1 + rd h a 2 * rd h b 2"

definition vec3_cross :: "ref \<Rightarrow> ref \<Rightarrow> ref \<Rightarrow> store \<Rightarrow> store" where
  "vec3_cross out a b h =
     (let ax = rd h a 0; ay = rd h a 1; az = rd h a 2;
          bx = rd h b 0; by = rd h b 1; bz = rd h b 2;
          h1 = wr h out 0 (ay * bz - az * by);
          h2 = wr h1 out 1 (az * bx - ax * bz);
          h3 = wr h2 out 2 (ax * by - ay * bx)
      in h3)"

definition vec3_lerp ::
  "ref \<Rightarrow> ref \<Rightarrow> ref \<Rightarrow> number \<Rightarrow> store \<Rightarrow> store" where
  "vec3_lerp out a b t h =
     (let ax = rd h a 0;
          ay = rd h a 1;
          az = rd h a 2;
          h1 = wr h out 0 (ax + t * (rd h b 0 - ax));
          h2 = wr h1 out 1 (ay + t * (rd h1 b 1 - ay));
          h3 = wr h2 out 2 (az + t * (rd h2 b 2 - az))
      in h3)"

definition vec3_slerp ::
  "ref \<Rightarrow> ref \<Rightarrow> ref \<Rightarrow> number \<Rightarrow> store \<Rightarrow> store" where
  "vec3_slerp out a b t h =
     (let angle = Math_acos (Math_min (Math_max (vec3_dot a b h) (- Fin 1)) (Fin 1));
          sinTotal = Math_sin angle;
          ratioA = Math_sin ((Fin 1 - t) * angle) / sinTotal;
          ratioB = Math_sin (t * angle) / sinTotal;
          h1 = wr h out 0 (ratioA * rd h a 0 + ratioB * rd h b 0);
          h2 = wr h1 out 1 (ratioA * rd h1 a 1 + ratioB * rd h1 b 1);
          h3 = wr h2 out 2 (ratioA * rd h2 a 2 + ratioB * rd h2 b 2)
      in h3)"

definition vec3_hermite ::
  "ref \<Rightarrow> ref \<Rightarrow> ref \<Rightarrow> ref \<Rightarrow> ref \<Rightarrow> number \<Rightarrow> store \<Rightarrow> store" where
  "vec3_hermite out a b c d t h =
     (let factorTimes2 = t * t;
          factor1 = factorTimes2 * (Fin 2 * t - Fin 3) + Fin 1;
          factor2 = factorTimes2 * (t - Fin 2) + t;
          factor3 = factorTimes2 * (t - Fin 1);
          factor4 = factorTimes2 * (Fin 3 - Fin 2 * t);
          h1 = wr h out 0
              (rd h a 0 * factor1 + rd h b 0 * factor2 + rd h c 0 * factor3 + rd h d 0 * factor4);
          h2 = wr h1 out 1
              (rd h1 a 1 * factor1 + rd h1 b 1 * factor2 + rd h1 c 1 * factor3
               + rd h1 d 1 * factor4);
          h3 = wr h2 out 2
              (rd h2 a 2 * factor1 + rd h2 b 2 * factor2 + rd h2 c 2 * factor3
               + rd h2 d 2 * factor4)
      in h3)"

definition vec3_bezier ::
  "ref \<Rightarrow> ref \<Rightarrow> ref \<Rightarrow> ref \<Rightarrow> ref \<Rightarrow> number \<Rightarrow> store \<Rightarrow> store" where
  "vec3_bezier out a b c d t h =
     (let inverseFactor = Fin 1 - t;
          inverseFactorTimesTwo = inverseFactor * inverseFactor;
          factorTimes2 = t * t;
          factor1 = inverseFactorTimesTwo * inverseFactor;
          factor2 = Fin 3 * t * inverseFactorTimesTwo;
          factor3 = Fin 3 * factorTimes2 * inverseFactor;
          factor4 = factorTimes2 * t;
          h1 = wr h out 0
              (rd h a 0 * factor1 + rd h b 0 * factor2 + rd h c 0 * factor3 + rd h d 0 * factor4);
          h2 = wr h1 out 1
              (rd h1 a 1 * factor1 + rd h1 b 1 * factor2 + rd h1 c 1 * factor3
               + rd h1 d 1 * factor4);
          h3 = wr h2 out 2
              (rd h2 a 2 * factor1 + rd h2 b 2 * factor2 + rd h2 c 2 * factor3
               + rd h2 d 2 * factor4)
      in h3)"

definition vec3_transformMat4 :: "ref \<Rightarrow> ref \<Rightarrow> ref \<Rightarrow> store \<Rightarrow> store" where
  "vec3_transformMat4 out a m h =
     (let x = rd h a 0; y = rd h a 1; z = rd h a 2;
          w = rd h m 3 * x + rd h m 7 * y + rd h m 11 * z + rd h m 15;
          w = (if truthy w then w else Fin 1);
          h1 = wr h out 0
                 ((rd h m 0 * x + rd h m 4 * y + rd h m 8 * z + rd h m 12) / w);
          h2 = wr h1 out 1
                 ((rd h1 m 1 * x + rd h1 m 5 * y + rd h1 m 9 * z + rd h1 m 13) / w);
          h3 = wr h2 out 2
                 ((rd h2 m 2 * x + rd h2 m 6 * y + rd h2 m 10 * z + rd h2 m 14) / w)
      in h3)"

definition vec3_transformQuat :: "ref \<Rightarrow> ref \<Rightarrow> ref \<Rightarrow> store \<Rightarrow> store" where
  "vec3_transformQuat out a q h =
     (let qx = rd h q 0; qy = rd h q 1; qz = rd h q 2; qw = rd h q 3;
          x = rd h a 0; y = rd h a 1; z = rd h a 2;
          uvx = qy * z - qz * y;
          uvy = qz * x - qx * z;
          uvz = qx * y - qy * x;
          uuvx = qy * uvz - qz * uvy;
          uuvy = qz * uvx - qx * uvz;
          uuvz = qx * uvy - qy * uvx;
          w2 = qw * Fin 2;
          uvx = uvx * w2; uvy = uvy * w2; uvz = uvz * w2;
          uuvx = uuvx * Fin 2; uuvy = uuvy * Fin 2; uuvz = uuvz * Fin 2;
          h1 = wr h out 0 (x + uvx + uuvx);
          h2 = wr h1 out 1 (y + uvy + uuvy);
          h3 = wr h2 out 2 (z + uvz + uuvz)
      in h3)"

definition vec3_rotateX ::
  "ref \<Rightarrow> ref \<Rightarrow> ref \<Rightarrow> number \<Rightarrow> store \<Rightarrow> store" where
  "vec3_rotateX out a b rad h =
     (let p0 = rd h a 0 - rd h b 0;
          p1 = rd h a 1 - rd h b 1;
          p2 = rd h a 2 - rd h b 2;
          r0 = p0;
          r1 = p1 * Math_cos rad - p2 * Math_sin rad;
          r2 = p1 * Math_sin rad + p2 * Math_cos rad;
          h1 = wr h out 0 (r0 + rd h b 0);
          h2 = wr h1 out 1 (r1 + rd h1 b 1);
          h3 = wr h2 out 2 (r2 + rd h2 b 2)
      in h3)"

definition vec3_rotateY ::
  "ref \<Rightarrow> ref \<Rightarrow> ref \<Rightarrow> number \<Rightarrow> store \<Rightarrow> store" where
  "vec3_rotateY out a b rad h =
     (let p0 = rd h a 0 - rd h b 0;
          p1 = rd h a 1 - rd h b 1;
          p2 = rd h a 2 - rd h b 2;
          r0 = p2 * Math_sin rad + p0 * Math_cos rad;
          r1 = p1;
          r2 = p2 * Math_cos rad - p0 * Math_sin rad;
          h1 = wr h out 0 (r0 + rd h b 0);
          h2 = wr h1 out 1 (r1 + rd h1 b 1);
          h3 = wr h2 out 2 (r2 + rd h2 b 2)
      in h3)"

definition vec3_rotateZ ::
  "ref \<Rightarrow> ref \<Rightarrow> ref \<Rightarrow> number \<Rightarrow> store \<Rightarrow> store" where
  "vec3_rotateZ out a b rad h =
     (let p0 = rd h a 0 - rd h b 0;
          p1 = rd h a 1 - rd h b 1;
          p2 = rd h a 2 - rd h b 2;
          r0 = p0 * Math_cos rad - p1 * Math_sin rad;
          r1 = p0 * Math_sin rad + p1 * Math_cos rad;
          r2 = p2;
          h1 = wr h out 0 (r0 + rd h b 0);
          h2 = wr h1 out 1 (r1 + rd h1 b 1);
          h3 = wr h2 out 2 (r2 + rd h2 b 2)
      in h3)"

section \<open>vec4\<close>

definition vec4_copy :: "ref \<Rightarrow> ref \<Rightarrow> store \<Rightarrow> store" where
  "vec4_copy out a h =
     (let h1 = wr h out 0 (rd h a 0);
          h2 = wr h1 out 1 (rd h1 a 1);
          h3 = wr h2 out 2 (rd h2 a 2);
          h4 = wr h3 out 3 (rd h3 a 3)
      in h4)"

definition vec4_add ::
  "ref \<Rightarrow> ref \<Rightarrow> ref \<Rightarrow> store \<Rightarrow> store" where
  "vec4_add out a b h =
     (let h1 = wr h out 0 (rd h a 0 + rd h b 0);
          h2 = wr h1 out 1 (rd h1 a 1 + rd h1 b 1);
          h3 = wr h2 out 2 (rd h2 a 2 + rd h2 b 2);
          h4 = wr h3 out 3 (rd h3 a 3 + rd h3 b 3)
      in h4)"

definition vec4_subtract ::
  "ref \<Rightarrow> ref \<Rightarrow> ref \<Rightarrow> store \<Rightarrow> store" where
  "vec4_subtract out a b h =
     (let h1 = wr h out 0 (rd h a 0 - rd h b 0);
          h2 = wr h1 out 1 (rd h1 a 1 - rd h1 b 1);
          h3 = wr h2 out 2 (rd h2 a 2 - rd h2 b 2);
          h4 = wr h3 out 3 (rd h3 a 3 - rd h3 b 3)
      in h4)"

definition vec4_multiply ::
  "ref \<Rightarrow> ref \<Rightarrow> ref \<Rightarrow> store \<Rightarrow> store" where
  "vec4_multiply out a b h =
     (let h1 = wr h out 0 (rd h a 0 * rd h b 0);
          h2 = wr h1 out 1 (rd h1 a 1 * rd h1 b 1);
          h3 = wr h2 out 2 (rd h2 a 2 * rd h2 b 2);
          h4 = wr h3 out 3 (rd h3 a 3 * rd h3 b 3)
      in h4)"

definition vec4_divide ::
  "ref \<Rightarrow> ref \<Rightarrow> ref \<Rightarrow> store \<Rightarrow> store" where
  "vec4_divide out a b h =
     (let h1 = wr h out 0 (rd h a 0 / rd h b 0);
          h2 = wr h1 out 1 (rd h1 a 1 / rd h1 b 1);
          h3 = wr h2 out 2 (rd h2 a 2 / rd h2 b 2);
          h4 = wr h3 out 3 (rd h3 a 3 / rd h3 b 3)
      in h4)"

definition vec4_ceil :: "ref \<Rightarrow> ref \<Rightarrow> store \<Rightarrow> store" where
  "vec4_ceil out a h =
     (let h1 = wr h out 0 (Math_ceil (rd h a 0));
          h2 = wr h1 out 1 (Math_ceil (rd h1 a 1));
          h3 = wr h2 out 2 (Math_ceil (rd h2 a 2));
          h4 = wr h3 out 3 (Math_ceil (rd h3 a 3))
      in h4)"

definition vec4_floor :: "ref \<Rightarrow> ref \<Rightarrow> store \<Rightarrow> store" where
  "vec4_floor out a h =
     (let h1 = wr h out 0 (Math_floor (rd h a 0));
          h2 = wr h1 out 1 (Math_floor (rd h1 a 1));
          h3 = wr h2 out 2 (Math_floor (rd h2 a 2));
          h4 = wr h3 out 3 (Math_floor (rd h3 a 3))
      in h4)"

definition vec4_min ::
  "ref \<Rightarrow> ref \<Rightarrow> ref \<Rightarrow> store \<Rightarrow> store" where
  "vec4_min out a b h =
     (let h1 = wr h out 0 (Math_min (rd h a 0) (rd h b 0));
          h2 = wr h1 out 1 (Math_min (rd h1 a 1) (rd h1 b 1));
          h3 = wr h2 out 2 (Math_min (rd h2 a 2) (rd h2 b 2));
          h4 = wr h3 out 3 (Math_min (rd h3 a 3) (rd h3 b 3))
      in h4)"

definition vec4_max ::
  "ref \<Rightarrow> ref \<Rightarrow> ref \<Rightarrow> store \<Rightarrow> store" where
  "vec4_max out a b h =
     (let h1 = wr h out 0 (Math_max (rd h a 0) (rd h b 0));
          h2 = wr h1 out 1 (Math_max (rd h1 a 1) (rd h1 b 1));
          h3 = wr h2 out 2 (Math_max (rd h2 a 2) (rd h2 b 2));
          h4 = wr h3 out 3 (Math_max (rd h3 a 3) (rd h3 b 3))
      in h4)"

definition vec4_round :: "ref \<Rightarrow> ref \<Rightarrow> store \<Rightarrow> store" where
  "vec4_round out a h =
     (let h1 = wr h out 0 (Math_round (rd h a 0));
          h2 = wr h1 out 1 (Math_round (rd h1 a 1));
          h3 = wr h2 out 2 (Math_round (rd h2 a 2));
          h4 = wr h3 out 3 (Math_round (rd h3 a 3))
      in h4)"

definition vec4_scale ::
  "ref \<Rightarrow> ref \<Rightarrow> number \<Rightarrow> store \<Rightarrow> store" where
  "vec4_scale out a b h =
     (let h1 = wr h out 0 (rd h a 0 * b);
          h2 = wr h1 out 1 (rd h1 a 1 * b);
          h3 = wr h2 out 2 (rd h2 a 2 * b);
          h4 = wr h3 out 3 (rd h3 a 3 * b)
      in h4)"

definition vec4_scaleAndAdd ::
  "ref \<Rightarrow> ref \<Rightarrow> ref \<Rightarrow> number \<Rightarrow> store \<Rightarrow> store" where
  "vec4_scaleAndAdd out a b scale h =
     (let h1 = wr h out 0 (rd h a 0 + rd h b 0 * scale);
          h2 = wr h1 out 1 (rd h1 a 1 + rd h1 b 1 * scale);
          h3 = wr h2 out 2 (rd h2 a 2 + rd h2 b 2 * scale);
          h4 = wr h3 out 3 (rd h3 a 3 + rd h3 b 3 * scale)
      in h4)"

definition vec4_squaredLength :: "ref \<Rightarrow> store \<Rightarrow> number" where
  "vec4_squaredLength a h =
     (let x = rd h a 0; y = rd h a 1; z = rd h a 2; w = rd h a 3
      in x * x + y * y + z * z + w * w)"

definition vec4_negate :: "ref \<Rightarrow> ref \<Rightarrow> store \<Rightarrow> store" where
  "vec4_negate out a h =
     (let h1 = wr h out 0 (- rd h a 0);
          h2 = wr h1 out 1 (- rd h1 a 1);
          h3 = wr h2 out 2 (- rd h2 a 2);
          h4 = wr h3 out 3 (- rd h3 a 3)
      in h4)"

definition vec4_inverse :: "ref \<Rightarrow> ref \<Rightarrow> store \<Rightarrow> store" where
  "vec4_inverse out a h =
     (let h1 = wr h out 0 (Fin 1 / rd h a 0);
          h2 = wr h1 out 1 (Fin 1 / rd h1 a 1);
          h3 = wr h2 out 2 (Fin 1 / rd h2 a 2);
          h4 = wr h3 out 3 (Fin 1 / rd h3 a 3)
      in h4)"

definition vec4_normalize :: "ref \<Rightarrow> ref \<Rightarrow> store \<Rightarrow> store" where
  "vec4_normalize out a h =
     (let x = rd h a 0; y = rd h a 1; z = rd h a 2; w = rd h a 3;
          len = x * x + y * y + z * z + w * w;
          len = (if len > Fin 0 then Fin 1 / Math_sqrt len else len);
          h1 = wr h out 0 (x * len);
          h2 = wr h1 out 1 (y * len);
          h3 = wr h2 out 2 (z * len);
          h4 = wr h3 out 3 (w * len)
      in h4)"

definition vec4_dot :: "ref \<Rightarrow> ref \<Rightarrow> store \<Rightarrow> number" where
  "vec4_dot a b h =
     rd h a 0 * rd h b 0 + rd h a 1 * rd h b 1 + rd h a 2 * rd h b 2 + rd h a 3 * rd h b 3"

definition vec4_cross ::
  "ref \<Rightarrow> ref \<Rightarrow> ref \<Rightarrow> ref \<Rightarrow> store \<Rightarrow> store" where
  "vec4_cross out u v w h =
     (let A = rd h v 0 * rd h w 1 - rd h v 1 * rd h w 0;
          B = rd h v 0 * rd h w 2 - rd h v 2 * rd h w 0;
          C = rd h v 0 * rd h w 3 - rd h v 3 * rd h w 0;
          D = rd h v 1 * rd h w 2 - rd h v 2 * rd h w 1;
          E = rd h v 1 * rd h w 3 - rd h v 3 * rd h w 1;
          F = rd h v 2 * rd h w 3 - rd h v 3 * rd h w 2;
          G = rd h u 0;
          H = rd h u 1;
          I = rd h u 2;
          J = rd h u 3;
          h1 = wr h out 0 (H * F - I * E + J * D);
          h2 = wr h1 out 1 ((- (G * F)) + I * C - J * B);
          h3 = wr h2 out 2 (G * E - H * C + J * A);
          h4 = wr h3 out 3 ((- (G * D)) + H * B - I * A)
      in h4)"

definition vec4_lerp ::
  "ref \<Rightarrow> ref \<Rightarrow> ref \<Rightarrow> number \<Rightarrow> store \<Rightarrow> store" where
  "vec4_lerp out a b t h =
     (let ax = rd h a 0;
          ay = rd h a 1;
          az = rd h a 2;
          aw = rd h a 3;
          h1 = wr h out 0 (ax + t * (rd h b 0 - ax));
          h2 = wr h1 out 1 (ay + t * (rd h1 b 1 - ay));
          h3 = wr h2 out 2 (az + t * (rd h2 b 2 - az));
          h4 = wr h3 out 3 (aw + t * (rd h3 b 3 - aw))
      in h4)"

definition vec4_transformMat4 :: "ref \<Rightarrow> ref \<Rightarrow> ref \<Rightarrow> store \<Rightarrow> store" where
  "vec4_transformMat4 out a m h =
     (let x = rd h a 0; y = rd h a 1; z = rd h a 2; w = rd h a 3;
          h1 = wr h out 0 (rd h m 0 * x + rd h m 4 * y + rd h m 8 * z + rd h m 12 * w);
          h2 = wr h1 out 1 (rd h1 m 1 * x + rd h1 m 5 * y + rd h1 m 9 * z + rd h1 m 13 * w);
          h3 = wr h2 out 2 (rd h2 m 2 * x + rd h2 m 6 * y + rd h2 m 10 * z + rd h2 m 14 * w);
          h4 = wr h3 out 3 (rd h3 m 3 * x + rd h3 m 7 * y + rd h3 m 11 * z + rd h3 m 15 * w)
      in h4)"

definition vec4_transformQuat :: "ref \<Rightarrow> ref \<Rightarrow> ref \<Rightarrow> store \<Rightarrow> store" where
  "vec4_transformQuat out a q h =
     (let x = rd h a 0; y = rd h a 1; z = rd h a 2;
          qx = rd h q 0; qy = rd h q 1; qz = rd h q 2; qw = rd h q 3;
          ix = qw * x + qy * z - qz * y;
          iy = qw * y + qz * x - qx * z;
          iz = qw * z + qx * y - qy * x;
          iw = (- qx) * x - qy * y - qz * z;
          h1 = wr h out 0 (ix * qw + iw * (- qx) + iy * (- qz) - iz * (- qy));
          h2 = wr h1 out 1 (iy * qw + iw * (- qy) + iz * (- qx) - ix * (- qz));
          h3 = wr h2 out 2 (iz * qw + iw * (- qz) + ix * (- qy) - iy * (- qx));
          h4 = wr h3 out 3 (rd h3 a 3)
      in h4)"

definition vec4_exactEquals :: "ref \<Rightarrow> ref \<Rightarrow> store \<Rightarrow> bool" where
  "vec4_exactEquals a b h \<longleftrightarrow>
     strict_eq (rd h a 0) (rd h b 0) \<and> strict_eq (rd h a 1) (rd h b 1) \<and>
     strict_eq (rd h a 2) (rd h b 2) \<and> strict_eq (rd h a 3) (rd h b 3)"

definition vec4_equals :: "ref \<Rightarrow> ref \<Rightarrow> store \<Rightarrow> bool" where
  "vec4_equals a b h \<longleftrightarrow>
     (let a0 = rd h a 0; a1 = rd h a 1; a2 = rd h a 2; a3 = rd h a 3;
          b0 = rd h b 0; b1 = rd h b 1; b2 = rd h b 2; b3 = rd h b 3
      in \<bar>a0 - b0\<bar> \<le> Fin 0.000001 * Math_max (Math_max (Fin 1) \<bar>a0\<bar>) \<bar>b0\<bar> \<and>
         \<bar>a1 - b1\<bar> \<le> Fin 0.000001 * Math_max (Math_max (Fin 1) \<bar>a1\<bar>) \<bar>b1\<bar> \<and>
         \<bar>a2 - b2\<bar> \<le> Fin 0.000001 * Math_max (Math_max (Fin 1) \<bar>a2\<bar>) \<bar>b2\<bar> \<and>
         \<bar>a3 - b3\<bar> \<le> Fin 0.000001 * Math_max (Math_max (Fin 1) \<bar>a3\<bar>) \<bar>b3\<bar>)"

text \<open>
  The test that \<^verbatim>\<open>vec4.equals\<close> makes on one pair of components: they differ by at most
  \<^verbatim>\<open>EPSILON\<close> = 1e-6, relative to the greater of 1 and their magnitudes.
\<close>

definition equals_component :: "number \<Rightarrow> number \<Rightarrow> bool" where
  "equals_component x y \<longleftrightarrow>
     \<bar>x - y\<bar> \<le> Fin 0.000001 * Math_max (Math_max (Fin 1) \<bar>x\<bar>) \<bar>y\<bar>"


section \<open>quat\<close>

text \<open>
  As for the vectors: \<^verbatim>\<open>create\<close>, \<^verbatim>\<open>identity\<close> and \<^verbatim>\<open>random\<close> read no array and
  \<^verbatim>\<open>getAngle\<close> writes none; they are left out.
\<close>

definition quat_setAxisAngle :: "ref \<Rightarrow> ref \<Rightarrow> number \<Rightarrow> store \<Rightarrow> store" where
  "quat_setAxisAngle out axis rad h =
     (let rad = rad * Fin 0.5;
          s = Math_sin rad;
          h1 = wr h out 0 (s * rd h axis 0);
          h2 = wr h1 out 1 (s * rd h1 axis 1);
          h3 = wr h2 out 2 (s * rd h2 axis 2);
          h4 = wr h3 out 3 (Math_cos rad)
      in h4)"

text \<open>\<^verbatim>\<open>getAxisAngle\<close> returns the angle and writes the axis.\<close>

definition quat_getAxisAngle :: "ref \<Rightarrow> ref \<Rightarrow> store \<Rightarrow> number \<times> store" where
  "quat_getAxisAngle out_axis q h =
     (let rad = Math_acos (rd h q 3) * Fin 2;
          s = Math_sin (rad / Fin 2);
          h' = (if s > Fin 0.000001 then
                  (let h1 = wr h out_axis 0 (rd h q 0 / s);
                       h2 = wr h1 out_axis 1 (rd h1 q 1 / s);
                       h3 = wr h2 out_axis 2 (rd h2 q 2 / s)
                   in h3)
                else
                  (let h1 = wr h out_axis 0 (Fin 1);
                       h2 = wr h1 out_axis 1 (Fin 0);
                       h3 = wr h2 out_axis 2 (Fin 0)
                   in h3))
      in (rad, h'))"

definition quat_multiply :: "ref \<Rightarrow> ref \<Rightarrow> ref \<Rightarrow> store \<Rightarrow> store" where
  "quat_multiply out a b h =
     (let ax = rd h a 0; ay = rd h a 1; az = rd h a 2; aw = rd h a 3;
          bx = rd h b 0; by = rd h b 1; bz = rd h b 2; bw = rd h b 3;
          h1 = wr h out 0 (ax * bw + aw * bx + ay * bz - az * by);
          h2 = wr h1 out 1 (ay * bw + aw * by + az * bx - ax * bz);
          h3 = wr h2 out 2 (az * bw + aw * bz + ax * by - ay * bx);
          h4 = wr h3 out 3 (aw * bw - ax * bx - ay * by - az * bz)
      in h4)"

definition quat_rotateX ::
  "ref \<Rightarrow> ref \<Rightarrow> number \<Rightarrow> store \<Rightarrow> store" where
  "quat_rotateX out a rad h =
     (let rad = rad * Fin 0.5;
          ax = rd h a 0;
          ay = rd h a 1;
          az = rd h a 2;
          aw = rd h a 3;
          bx = Math_sin rad;
          bw = Math_cos rad;
          h1 = wr h out 0 (ax * bw + aw * bx);
          h2 = wr h1 out 1 (ay * bw + az * bx);
          h3 = wr h2 out 2 (az * bw - ay * bx);
          h4 = wr h3 out 3 (aw * bw - ax * bx)
      in h4)"

definition quat_rotateY ::
  "ref \<Rightarrow> ref \<Rightarrow> number \<Rightarrow> store \<Rightarrow> store" where
  "quat_rotateY out a rad h =
     (let rad = rad * Fin 0.5;
          ax = rd h a 0;
          ay = rd h a 1;
          az = rd h a 2;
          aw = rd h a 3;
          by = Math_sin rad;
          bw = Math_cos rad;
          h1 = wr h out 0 (ax * bw - az * by);
          h2 = wr h1 out 1 (ay * bw + aw * by);
          h3 = wr h2 out 2 (az * bw + ax * by);
          h4 = wr h3 out 3 (aw * bw - ay * by)
      in h4)"

definition quat_rotateZ ::
  "ref \<Rightarrow> ref \<Rightarrow> number \<Rightarrow> store \<Rightarrow> store" where
  "quat_rotateZ out a rad h =
     (let rad = rad * Fin 0.5;
          ax = rd h a 0;
          ay = rd h a 1;
          az = rd h a 2;
          aw = rd h a 3;
          bz = Math_sin rad;
          bw = Math_cos rad;
          h1 = wr h out 0 (ax * bw + ay * bz);
          h2 = wr h1 out 1 (ay * bw - ax * bz);
          h3 = wr h2 out 2 (az * bw + aw * bz);
          h4 = wr h3 out 3 (aw * bw - az * bz)
      in h4)"

definition quat_calculateW ::
  "ref \<Rightarrow> ref \<Rightarrow> store \<Rightarrow> store" where
  "quat_calculateW out a h =
     (let x = rd h a 0;
          y = rd h a 1;
          z = rd h a 2;
          h1 = wr h out 0 x;
          h2 = wr h1 out 1 y;
          h3 = wr h2 out 2 z;
          h4 = wr h3 out 3 (Math_sqrt \<bar>Fin 1 - x * x - y * y - z * z\<bar>)
      in h4)"

definition quat_exp :: "ref \<Rightarrow> ref \<Rightarrow> store \<Rightarrow> store" where
  "quat_exp out a h =
     (let x = rd h a 0; y = rd h a 1; z = rd h a 2; w = rd h a 3;
          r = Math_sqrt (x * x + y * y + z * z);
          et = Math_exp w;
          s = (if r > Fin 0 then (et * Math_sin r) / r else Fin 0);
          h1 = wr h out 0 (x * s);
          h2 = wr h1 out 1 (y * s);
          h3 = wr h2 out 2 (z * s);
          h4 = wr h3 out 3 (et * Math_cos r)
      in h4)"

definition quat_ln :: "ref \<Rightarrow> ref \<Rightarrow> store \<Rightarrow> store" where
  "quat_ln out a h =
     (let x = rd h a 0; y = rd h a 1; z = rd h a 2; w = rd h a 3;
          r = Math_sqrt (x * x + y * y + z * z);
          t = (if r > Fin 0 then Math_atan2 r w / r else Fin 0);
          h1 = wr h out 0 (x * t);
          h2 = wr h1 out 1 (y * t);
          h3 = wr h2 out 2 (z * t);
          h4 = wr h3 out 3 (Fin 0.5 * Math_log (x * x + y * y + z * z + w * w))
      in h4)"

definition quat_pow :: "ref \<Rightarrow> ref \<Rightarrow> number \<Rightarrow> store \<Rightarrow> store" where
  "quat_pow out a b h =
     (let h1 = quat_ln out a h;
          h2 = vec4_scale out out b h1;
          h3 = quat_exp out out h2
      in h3)"

definition quat_slerp :: "ref \<Rightarrow> ref \<Rightarrow> ref \<Rightarrow> number \<Rightarrow> store \<Rightarrow> store" where
  "quat_slerp out a b t h =
     (let ax = rd h a 0; ay = rd h a 1; az = rd h a 2; aw = rd h a 3;
          bx = rd h b 0; by = rd h b 1; bz = rd h b 2; bw = rd h b 3;
          cosom = ax * bx + ay * by + az * bz + aw * bw;
          (cosom, bx, by, bz, bw) =
             (if cosom < Fin 0 then (- cosom, - bx, - by, - bz, - bw)
              else (cosom, bx, by, bz, bw));
          (scale0, scale1) =
             (if Fin 1 - cosom > Fin 0.000001 then
                (let omega = Math_acos cosom;
                     sinom = Math_sin omega
                 in (Math_sin ((Fin 1 - t) * omega) / sinom, Math_sin (t * omega) / sinom))
              else (Fin 1 - t, t));
          h1 = wr h out 0 (scale0 * ax + scale1 * bx);
          h2 = wr h1 out 1 (scale0 * ay + scale1 * by);
          h3 = wr h2 out 2 (scale0 * az + scale1 * bz);
          h4 = wr h3 out 3 (scale0 * aw + scale1 * bw)
      in h4)"

definition quat_invert :: "ref \<Rightarrow> ref \<Rightarrow> store \<Rightarrow> store" where
  "quat_invert out a h =
     (let a0 = rd h a 0; a1 = rd h a 1; a2 = rd h a 2; a3 = rd h a 3;
          dot = a0 * a0 + a1 * a1 + a2 * a2 + a3 * a3;
          invDot = (if truthy dot then Fin 1 / dot else Fin 0);
          h1 = wr h out 0 ((- a0) * invDot);
          h2 = wr h1 out 1 ((- a1) * invDot);
          h3 = wr h2 out 2 ((- a2) * invDot);
          h4 = wr h3 out 3 (a3 * invDot)
      in h4)"

definition quat_conjugate :: "ref \<Rightarrow> ref \<Rightarrow> store \<Rightarrow> store" where
  "quat_conjugate out a h =
     (let h1 = wr h out 0 (- rd h a 0);
          h2 = wr h1 out 1 (- rd h1 a 1);
          h3 = wr h2 out 2 (- rd h2 a 2);
          h4 = wr h3 out 3 (rd h3 a 3)
      in h4)"

text \<open>
  The six members of the enum \<^verbatim>\<open>AngleOrder\<close>.  The enum is numeric and its declaration
  assigns each member a number; the functions below take that assignment as the parameter
  \<open>code\<close>.  The order argument of \<^verbatim>\<open>fromEuler\<close> is a number, or \<open>None\<close> when the caller
  passes \<^verbatim>\<open>undefined\<close> or leaves it out, in which case the parameter default
  \<^verbatim>\<open>AngleOrder.ZYX\<close> applies.  The \<^verbatim>\<open>switch\<close> compares with \<^verbatim>\<open>===\<close>, first match first.
\<close>

datatype AngleOrder = XYZ | XZY | YXZ | YZX | ZXY | ZYX

datatype error = UnknownAngleOrder number

text \<open>The body of each \<^verbatim>\<open>case\<close> of the switch, up to its \<^verbatim>\<open>break\<close>.\<close>

fun fromEuler_case ::
  "AngleOrder \<Rightarrow> number \<Rightarrow> number \<Rightarrow> number \<Rightarrow> number \<Rightarrow> number \<Rightarrow> number \<Rightarrow> ref \<Rightarrow> store
     \<Rightarrow> store" where
  "fromEuler_case XYZ sx cx sy cy sz cz out h =
     (let h1 = wr h out 0 (sx * cy * cz + cx * sy * sz);
          h2 = wr h1 out 1 (cx * sy * cz - sx * cy * sz);
          h3 = wr h2 out 2 (cx * cy * sz + sx * sy * cz);
          h4 = wr h3 out 3 (cx * cy * cz - sx * sy * sz)
      in h4)"
| "fromEuler_case XZY sx cx sy cy sz cz out h =
     (let h1 = wr h out 0 (sx * cy * cz - cx * sy * sz);
          h2 = wr h1 out 1 (cx * sy * cz - sx * cy * sz);
          h3 = wr h2 out 2 (cx * cy * sz + sx * sy * cz);
          h4 = wr h3 out 3 (cx * cy * cz + sx * sy * sz)
      in h4)"
| "fromEuler_case YXZ sx cx sy cy sz cz out h =
     (let h1 = wr h out 0 (sx * cy * cz + cx * sy * sz);
          h2 = wr h1 out 1 (cx * sy * cz - sx * cy * sz);
          h3 = wr h2 out 2 (cx * cy * sz - sx * sy * cz);
          h4 = wr h3 out 3 (cx * cy * cz + sx * sy * sz)
      in h4)"
| "fromEuler_case YZX sx cx sy cy sz cz out h =
     (let h1 = wr h out 0 (sx * cy * cz + cx * sy * sz);
          h2 = wr h1 out 1 (cx * sy * cz + sx * cy * sz);
          h3 = wr h2 out 2 (cx * cy * sz - sx * sy * cz);
          h4 = wr h3 out 3 (cx * cy * cz - sx * sy * sz)
      in h4)"
| "fromEuler_case ZXY sx cx sy cy sz cz out h =
     (let h1 = wr h out 0 (sx * cy * cz - cx * sy * sz);
          h2 = wr h1 out 1 (cx * sy * cz + sx * cy * sz);
          h3 = wr h2 out 2 (cx * cy * sz + sx * sy * cz);
          h4 = wr h3 out 3 (cx * cy * cz - sx * sy * sz)
      in h4)"
| "fromEuler_case ZYX sx cx sy cy sz cz out h =
     (let h1 = wr h out 0 (sx * cy * cz - cx * sy * sz);
          h2 = wr h1 out 1 (cx * sy * cz + sx * cy * sz);
          h3 = wr h2 out 2 (cx * cy * sz - sx * sy * cz);
          h4 = wr h3 out 3 (cx * cy * cz + sx * sy * sz)
      in h4)"

definition quat_fromEuler ::
  "(AngleOrder \<Rightarrow> real) \<Rightarrow> ref \<Rightarrow> number \<Rightarrow> number \<Rightarrow> number \<Rightarrow> number option \<Rightarrow> store
     \<Rightarrow> error + store" where
  "quat_fromEuler code out x y z order_arg h =
     (let order = (case order_arg of None \<Rightarrow> Fin (code ZYX) | Some v \<Rightarrow> v);
          halfToRad = Math_PI / Fin 360;
          x = x * halfToRad;
          z = z * halfToRad;
          y = y * halfToRad;
          sx = Math_sin x; cx = Math_cos x;
          sy = Math_sin y; cy = Math_cos y;
          sz = Math_sin z; cz = Math_cos z
      in if strict_eq order (Fin (code XYZ)) then Inr (fromEuler_case XYZ sx cx sy cy sz cz out h)
         else if strict_eq order (Fin (code XZY)) then Inr (fromEuler_case XZY sx cx sy cy sz cz out h)
         else if strict_eq order (Fin (code YXZ)) then Inr (fromEuler_case YXZ sx cx sy cy sz cz out h)
         else if strict_eq order (Fin (code YZX)) then Inr (fromEuler_case YZX sx cx sy cy sz cz out h)
         else if strict_eq order (Fin (code ZXY)) then Inr (fromEuler_case ZXY sx cx sy cy sz cz out h)
         else if strict_eq order (Fin (code ZYX)) then Inr (fromEuler_case ZYX sx cx sy cy sz cz out h)
         else Inl (UnknownAngleOrder order))"

text \<open>
  Modelled from the spec: the declaration of the enum \<^verbatim>\<open>AngleOrder\<close> is not among the
  sources.  The orderings are listed as XYZ, XZY, YXZ, YZX, ZXY, ZYX; a numeric enum that
  declares them in this order without initialisers numbers them from 0 to 5.  The theorems
  on \<^verbatim>\<open>fromEuler\<close> hold for every numbering; this one is the instance they are tried on.
\<close>

fun angle_order_code :: "AngleOrder \<Rightarrow> real" where
  "angle_order_code XYZ = 0"
| "angle_order_code XZY = 1"
| "angle_order_code YXZ = 2"
| "angle_order_code YZX = 3"
| "angle_order_code ZXY = 4"
| "angle_order_code ZYX = 5"

definition quat_equals :: "ref \<Rightarrow> ref \<Rightarrow> store \<Rightarrow> bool" where
  "quat_equals a b h \<longleftrightarrow> \<bar>vec4_dot a b h\<bar> \<ge> Fin 1 - Fin 0.000001"

text \<open>
  \<^verbatim>\<open>rotationTo\<close> is a closure over three arrays that the module allocates once, when it is
  loaded: a scratch vector and the two unit vectors.  No caller can reach them, so they
  differ from every array a caller passes.
\<close>

record rotationTo_closure =
  tmpvec3 :: ref
  xUnitVec3 :: ref
  yUnitVec3 :: ref

text \<open>What loading the module establishes, and every call preserves.\<close>

definition closure_loaded :: "rotationTo_closure \<Rightarrow> store \<Rightarrow> bool" where
  "closure_loaded c h \<longleftrightarrow>
     distinct [tmpvec3 c, xUnitVec3 c, yUnitVec3 c] \<and>
     length (h (tmpvec3 c)) = 3 \<and>
     h (xUnitVec3 c) = [Fin 1, Fin 0, Fin 0] \<and>
     h (yUnitVec3 c) = [Fin 0, Fin 1, Fin 0]"

definition quat_rotationTo ::
  "rotationTo_closure \<Rightarrow> ref \<Rightarrow> ref \<Rightarrow> ref \<Rightarrow> store \<Rightarrow> store" where
  "quat_rotationTo c out a b h =
     (let dot = vec3_dot a b h
      in if dot < Fin (- 0.999999) then
           (let h1 = vec3_cross (tmpvec3 c) (xUnitVec3 c) a h;
                h2 = (if vec3_length (tmpvec3 c) h1 < Fin 0.000001
                      then vec3_cross (tmpvec3 c) (yUnitVec3 c) a h1 else h1);
                h3 = vec3_normalize (tmpvec3 c) (tmpvec3 c) h2
            in quat_setAxisAngle out (tmpvec3 c) Math_PI h3)
         else if dot > Fin 0.999999 then
           (let h1 = wr h out 0 (Fin 0);
                h2 = wr h1 out 1 (Fin 0);
                h3 = wr h2 out 2 (Fin 0);
                h4 = wr h3 out 3 (Fin 1)
            in h4)
         else
           (let h1 = vec3_cross (tmpvec3 c) a b h;
                h2 = wr h1 out 0 (rd h1 (tmpvec3 c) 0);
                h3 = wr h2 out 1 (rd h2 (tmpvec3 c) 1);
                h4 = wr h3 out 2 (rd h3 (tmpvec3 c) 2);
                h5 = wr h4 out 3 (Fin 1 + dot)
            in vec4_normalize out out h5))"


text \<open>
  \<^verbatim>\<open>sqlerp\<close> is a closure over two quaternions that the module allocates once, when it is
  loaded, and that no caller can reach.
\<close>

record sqlerp_closure =
  temp1 :: ref
  temp2 :: ref

definition quat_sqlerp ::
  "sqlerp_closure \<Rightarrow> ref \<Rightarrow> ref \<Rightarrow> ref \<Rightarrow> ref \<Rightarrow> ref \<Rightarrow> number \<Rightarrow> store \<Rightarrow> store" where
  "quat_sqlerp m out a b c d t h =
     (let h1 = quat_slerp (temp1 m) a d t h;
          h2 = quat_slerp (temp2 m) b c t h1;
          h3 = quat_slerp out (temp1 m) (temp2 m) (Fin 2 * t * (Fin 1 - t)) h2
      in h3)"


section \<open>An output array that is also an input\<close>

text \<open>
  An operation \<open>f\<close>, given its output array last but for the store, treats aliasing
  correctly when a call on any output array \<open>out\<close>, one of the input arrays \<open>ins\<close>
  included, leaves every array as the following does: the call on an output array \<open>fresh\<close>
  that is neither \<open>out\<close> nor an input, then a copy of \<open>fresh\<close> into \<open>out\<close>.  Only
  \<open>fresh\<close> itself differs.  The output arrays have the three components of a vec3, or
  the four of a vec4 or a quat.
\<close>

definition alias_safe3 :: "(ref \<Rightarrow> store \<Rightarrow> store) \<Rightarrow> ref set \<Rightarrow> bool" where
  "alias_safe3 f ins \<longleftrightarrow>
     (\<forall>out fresh h p.
        fresh \<notin> insert out ins \<and> 3 \<le> length (h fresh) \<and> 3 \<le> length (h out) \<and> p \<noteq> fresh
        \<longrightarrow> f out h p = vec3_copy out fresh (f fresh h) p)"

definition alias_safe4 :: "(ref \<Rightarrow> store \<Rightarrow> store) \<Rightarrow> ref set \<Rightarrow> bool" where
  "alias_safe4 f ins \<longleftrightarrow>
     (\<forall>out fresh h p.
        fresh \<notin> insert out ins \<and> 4 \<le> length (h fresh) \<and> 4 \<le> length (h out) \<and> p \<noteq> fresh
        \<longrightarrow> f out h p = vec4_copy out fresh (f fresh h) p)"


section \<open>Example stores\<close>

text \<open>Concrete stores on which the theorems below are instantiated.\<close>

definition zero_vectors :: store where
  "zero_vectors = store_of [(0, [Fin 0, Fin 0, Fin 0]), (1, [Fin 0, Fin 0, Fin 0, Fin 0])]"

definition point_and_quat :: store where
  "point_and_quat = store_of
     [(0, [Fin 1, Fin 2, Fin 3, Fin 4]), (1, [Fin 0, Fin 0, Fin 1, Fin 0]),
      (2, [Fin 0, Fin 0, Fin 0, Fin 0])]"

definition antipodal_pair :: store where
  "antipodal_pair = store_of
     [(0, [Fin 0, Fin 0, Fin 0, Fin 1]), (1, [Fin 0, Fin 0, Fin 0, Fin (- 1)]),
      (2, [Fin 0, Fin 0, Fin 0, Fin 0])]"

definition unit_quat :: store where
  "unit_quat = store_of
     [(0, [Fin 0.6, Fin 0, Fin 0.8, Fin 0]), (1, [Fin 0, Fin 0, Fin 0, Fin 0])]"

text \<open>A point and a matrix whose fourth row is zero, so that the homogeneous coordinate is 0.\<close>

definition zero_row_matrix :: store where
  "zero_row_matrix = store_of
     [(0, [Fin 1, Fin 2, Fin 3]),
      (1, [Fin 1, Fin 0, Fin 0, Fin 0,
           Fin 0, Fin 1, Fin 0, Fin 0,
           Fin 0, Fin 0, Fin 1, Fin 0,
           Fin 5, Fin 6, Fin 7, Fin 0]),
      (2, [Fin 0, Fin 0, Fin 0])]"

text \<open>The arrays of the loaded module at 0, 1, 2, then a, b = -a, a quaternion and a vector.\<close>

definition module_closure :: rotationTo_closure where
  "module_closure = \<lparr>tmpvec3 = 0, xUnitVec3 = 1, yUnitVec3 = 2\<rparr>"

definition opposite_vectors :: store where
  "opposite_vectors = store_of
     [(0, [Fin 0, Fin 0, Fin 0]), (1, [Fin 1, Fin 0, Fin 0]), (2, [Fin 0, Fin 1, Fin 0]),
      (3, [Fin 1, Fin 0, Fin 0]), (4, [Fin (- 1), Fin 0, Fin 0]),
      (5, [Fin 0, Fin 0, Fin 0, Fin 0]), (6, [Fin 0, Fin 0, Fin 0])]"

text \<open>The arrays of the loaded module at 0, 1, 2, then two quaternions and two spare arrays.\<close>

definition two_quats :: store where
  "two_quats = store_of
     [(0, [Fin 0, Fin 0, Fin 0]), (1, [Fin 1, Fin 0, Fin 0]), (2, [Fin 0, Fin 1, Fin 0]),
      (3, [Fin 1, Fin 2, Fin 3, Fin 4]), (4, [Fin 0, Fin 0, Fin 1, Fin 0]),
      (5, [Fin 0, Fin 0, Fin 0, Fin 0]), (6, [Fin 0, Fin 0, Fin 0])]"


section \<open>Reading and writing the store\<close>

lemma rd_wr:
  "rd (wr h p i v) q j = (if p = q \<and> i = j \<and> j < length (h p) then v else rd h q j)"
  by (auto simp: rd_def wr_def)

lemma wr_other: "p \<noteq> q \<Longrightarrow> wr h p i v q = h q"
  by (simp add: wr_def)

lemma length_wr: "length (wr h p i v q) = length (h q)"
  by (simp add: wr_def)

lemma len3:
  "3 \<le> length xs \<Longrightarrow> xs \<noteq> [] \<and> Suc 0 < length xs \<and> 2 < length xs"
  by auto

lemma len4:
  "4 \<le> length xs \<Longrightarrow> xs \<noteq> [] \<and> Suc 0 < length xs \<and> 2 < length xs \<and> 3 < length xs"
  by auto


section \<open>Finite values\<close>

lemma div_one: "x / Fin 1 = x" for x :: number
  by (cases x) simp_all

lemma sq3_Fin:
  fixes x y z :: number
  assumes "x * x + y * y + z * z = Fin r"
  shows "\<exists>x' y' z'. x = Fin x' \<and> y = Fin y' \<and> z = Fin z' \<and> r = x' * x' + y' * y' + z' * z'"
  using assms by (cases x; cases y; cases z) simp_all

lemma sq4_Fin:
  fixes x y z w :: number
  assumes "x * x + y * y + z * z + w * w = Fin r"
  shows "\<exists>x' y' z' w'. x = Fin x' \<and> y = Fin y' \<and> z = Fin z' \<and> w = Fin w' \<and>
     r = x' * x' + y' * y' + z' * z' + w' * w'"
  using assms by (cases x; cases y; cases z; cases w) simp_all

lemma sum_sq3_zero:
  assumes "(0::real) = x * x + y * y + z * z"
  shows "x = 0 \<and> y = 0 \<and> z = 0"
proof -
  have "0 \<le> x * x" "0 \<le> y * y" "0 \<le> z * z" by simp_all
  with assms have "x * x = 0" "y * y = 0" "z * z = 0" by linarith+
  then show ?thesis by simp
qed

lemma sum_sq4_zero:
  assumes "(0::real) = x * x + y * y + z * z + w * w"
  shows "x = 0 \<and> y = 0 \<and> z = 0 \<and> w = 0"
proof -
  have "0 \<le> x * x" "0 \<le> y * y" "0 \<le> z * z" "0 \<le> w * w" by simp_all
  with assms have "x * x = 0" "y * y = 0" "z * z = 0" "w * w = 0" by linarith+
  then show ?thesis by simp
qed

text \<open>A squared length that is exactly zero belongs to the zero vector only.\<close>

lemma vec3_sqlen_zero:
  assumes "vec3_squaredLength a h = Fin 0"
  shows "rd h a 0 = Fin 0 \<and> rd h a 1 = Fin 0 \<and> rd h a 2 = Fin 0"
proof -
  from assms have "rd h a 0 * rd h a 0 + rd h a 1 * rd h a 1 + rd h a 2 * rd h a 2 = Fin 0"
    by (simp add: vec3_squaredLength_def Let_def)
  from sq3_Fin [OF this] obtain x y z where
    "rd h a 0 = Fin x" "rd h a 1 = Fin y" "rd h a 2 = Fin z" "0 = x * x + y * y + z * z"
    by blast
  with sum_sq3_zero [of x y z] show ?thesis by simp
qed

lemma vec4_sqlen_zero:
  assumes "vec4_squaredLength a h = Fin 0"
  shows "rd h a 0 = Fin 0 \<and> rd h a 1 = Fin 0 \<and> rd h a 2 = Fin 0 \<and> rd h a 3 = Fin 0"
proof -
  from assms have "rd h a 0 * rd h a 0 + rd h a 1 * rd h a 1 + rd h a 2 * rd h a 2
      + rd h a 3 * rd h a 3 = Fin 0"
    by (simp add: vec4_squaredLength_def Let_def)
  from sq4_Fin [OF this] obtain x y z w where
    "rd h a 0 = Fin x" "rd h a 1 = Fin y" "rd h a 2 = Fin z" "rd h a 3 = Fin w"
    "0 = x * x + y * y + z * z + w * w"
    by blast
  with sum_sq4_zero [of x y z w] show ?thesis by simp
qed


section \<open>Normalising the zero vector\<close>

lemma vec3_normalize_zero:
  assumes "vec3_squaredLength a h = Fin 0" and "3 \<le> length (h out)"
  shows "rd (vec3_normalize out a h) out 0 = Fin 0 \<and>
         rd (vec3_normalize out a h) out 1 = Fin 0 \<and>
         rd (vec3_normalize out a h) out 2 = Fin 0"
  using vec3_sqlen_zero [OF assms(1)] len3 [OF assms(2)]
  by (simp add: vec3_normalize_def Let_def rd_wr length_wr)

lemma vec4_normalize_zero:
  assumes "vec4_squaredLength a h = Fin 0" and "4 \<le> length (h out)"
  shows "rd (vec4_normalize out a h) out 0 = Fin 0 \<and>
         rd (vec4_normalize out a h) out 1 = Fin 0 \<and>
         rd (vec4_normalize out a h) out 2 = Fin 0 \<and>
         rd (vec4_normalize out a h) out 3 = Fin 0"
  using vec4_sqlen_zero [OF assms(1)] len4 [OF assms(2)]
  by (simp add: vec4_normalize_def Let_def rd_wr length_wr)

text \<open>
  C3.  When the squared length of the input is exactly zero, the test \<^verbatim>\<open>len > 0\<close> fails, the
  scale factor stays the squared length itself, and every component of the output is the
  finite number zero, for \<^verbatim>\<open>vec3.normalize\<close> and for \<^verbatim>\<open>vec4.normalize\<close> alike; the output may
  be the input array.  No component is NaN.
\<close>

theorem normalize_zero_vector:
  assumes "3 \<le> length (h out3)" and "4 \<le> length (h out4)"
  shows "(vec3_squaredLength a3 h = Fin 0 \<longrightarrow>
            rd (vec3_normalize out3 a3 h) out3 0 = Fin 0 \<and>
            rd (vec3_normalize out3 a3 h) out3 1 = Fin 0 \<and>
            rd (vec3_normalize out3 a3 h) out3 2 = Fin 0) \<and>
         (vec4_squaredLength a4 h = Fin 0 \<longrightarrow>
            rd (vec4_normalize out4 a4 h) out4 0 = Fin 0 \<and>
            rd (vec4_normalize out4 a4 h) out4 1 = Fin 0 \<and>
            rd (vec4_normalize out4 a4 h) out4 2 = Fin 0 \<and>
            rd (vec4_normalize out4 a4 h) out4 3 = Fin 0)"
  using vec3_normalize_zero [of a3 h out3] vec4_normalize_zero [of a4 h out4] assms
  by blast

theorem normalize_zero_vector_witness:
  "3 \<le> length (zero_vectors 0) \<and> 4 \<le> length (zero_vectors 1) \<and>
   vec3_squaredLength 0 zero_vectors = Fin 0 \<and>
   vec4_squaredLength 1 zero_vectors = Fin 0 \<and>
   rd (vec3_normalize 0 0 zero_vectors) 0 0 = Fin 0 \<and>
   rd (vec3_normalize 0 0 zero_vectors) 0 1 = Fin 0 \<and>
   rd (vec3_normalize 0 0 zero_vectors) 0 2 = Fin 0 \<and>
   rd (vec4_normalize 1 1 zero_vectors) 1 0 = Fin 0 \<and>
   rd (vec4_normalize 1 1 zero_vectors) 1 1 = Fin 0 \<and>
   rd (vec4_normalize 1 1 zero_vectors) 1 2 = Fin 0 \<and>
   rd (vec4_normalize 1 1 zero_vectors) 1 3 = Fin 0"
proof -
  have len: "3 \<le> length (zero_vectors 0)" "4 \<le> length (zero_vectors 1)"
    by (simp_all add: zero_vectors_def store_of_def)
  have sq: "vec3_squaredLength 0 zero_vectors = Fin 0" "vec4_squaredLength 1 zero_vectors = Fin 0"
    by (simp_all add: zero_vectors_def store_of_def rd_def
        vec3_squaredLength_def vec4_squaredLength_def)
  from normalize_zero_vector
    [where h = zero_vectors and ?out3.0 = 0 and ?out4.0 = 1 and ?a3.0 = 0 and ?a4.0 = 1]
    len sq show ?thesis
    by simp
qed


section \<open>The fourth component under \<^verbatim>\<open>vec4.transformQuat\<close>\<close>

text \<open>
  C9.  \<^verbatim>\<open>vec4.transformQuat\<close> leaves in the fourth component of the output the fourth
  component that the input had before the call, whatever the aliasing between the three
  arrays; it keeps the length of the output and touches no other array.
\<close>

theorem vec4_transformQuat_keeps_w:
  assumes "3 < length (h out)"
  shows "rd (vec4_transformQuat out a q h) out 3 = rd h a 3 \<and>
         length (vec4_transformQuat out a q h out) = length (h out) \<and>
         (\<forall>p. p \<noteq> out \<longrightarrow> vec4_transformQuat out a q h p = h p)"
  using assms by (simp add: vec4_transformQuat_def Let_def rd_wr length_wr wr_other)

theorem vec4_transformQuat_keeps_w_witness:
  "3 < length (point_and_quat 2) \<and>
   rd (vec4_transformQuat 2 0 1 point_and_quat) 2 3 = Fin 4 \<and>
   length (vec4_transformQuat 2 0 1 point_and_quat 2) = 4 \<and>
   (0::nat) \<noteq> 2 \<and> vec4_transformQuat 2 0 1 point_and_quat 0 = [Fin 1, Fin 2, Fin 3, Fin 4]"
proof -
  have len: "3 < length (point_and_quat 2)"
    by (simp add: point_and_quat_def store_of_def)
  have vals: "rd point_and_quat 0 3 = Fin 4" "length (point_and_quat 2) = 4"
    "point_and_quat 0 = [Fin 1, Fin 2, Fin 3, Fin 4]"
    by (simp_all add: point_and_quat_def store_of_def rd_def)
  from vec4_transformQuat_keeps_w [where h = point_and_quat and out = 2 and a = 0 and q = 1]
    len vals show ?thesis
    by simp
qed



section \<open>Inverting the zero quaternion\<close>

text \<open>
  C10.  When the squared norm \<^verbatim>\<open>dot\<close> of the input is exactly zero, \<^verbatim>\<open>quat.invert\<close> takes 0
  for \<^verbatim>\<open>invDot\<close> instead of \<^verbatim>\<open>1.0 / dot\<close>, and the four components it writes are the finite
  number zero: neither an infinity nor NaN.  The output may be the input array.
\<close>

theorem quat_invert_zero:
  assumes "vec4_dot a a h = Fin 0" and "4 \<le> length (h out)"
  shows "rd (quat_invert out a h) out 0 = Fin 0 \<and>
         rd (quat_invert out a h) out 1 = Fin 0 \<and>
         rd (quat_invert out a h) out 2 = Fin 0 \<and>
         rd (quat_invert out a h) out 3 = Fin 0"
proof -
  from assms(1) have "vec4_squaredLength a h = Fin 0"
    by (simp add: vec4_dot_def vec4_squaredLength_def Let_def)
  from vec4_sqlen_zero [OF this] len4 [OF assms(2)] show ?thesis
    by (simp add: quat_invert_def Let_def rd_wr length_wr)
qed

theorem quat_invert_zero_witness:
  "vec4_dot 1 1 zero_vectors = Fin 0 \<and> 4 \<le> length (zero_vectors 1) \<and>
   rd (quat_invert 1 1 zero_vectors) 1 0 = Fin 0 \<and>
   rd (quat_invert 1 1 zero_vectors) 1 1 = Fin 0 \<and>
   rd (quat_invert 1 1 zero_vectors) 1 2 = Fin 0 \<and>
   rd (quat_invert 1 1 zero_vectors) 1 3 = Fin 0"
proof -
  have hyp: "vec4_dot 1 1 zero_vectors = Fin 0" "4 \<le> length (zero_vectors 1)"
    by (simp_all add: zero_vectors_def store_of_def rd_def vec4_dot_def)
  from quat_invert_zero [where h = zero_vectors and a = 1 and out = 1] hyp
  show ?thesis by simp
qed


section \<open>A zero homogeneous coordinate in \<^verbatim>\<open>vec3.transformMat4\<close>\<close>

text \<open>
  C7.  When the homogeneous coordinate \<^verbatim>\<open>m[3]*x + m[7]*y + m[11]*z + m[15]\<close> is exactly zero,
  \<^verbatim>\<open>vec3.transformMat4\<close> divides by 1.0 in its place: each output component is the
  corresponding sum of the matrix product, undivided, so it is NaN only if that sum is.
  The output may be the input vector or the matrix.
\<close>

theorem vec3_transformMat4_w_zero:
  assumes "rd h m 3 * rd h a 0 + rd h m 7 * rd h a 1 + rd h m 11 * rd h a 2 + rd h m 15 = Fin 0"
      and "3 \<le> length (h out)"
  shows "rd (vec3_transformMat4 out a m h) out 0 =
           rd h m 0 * rd h a 0 + rd h m 4 * rd h a 1 + rd h m 8 * rd h a 2 + rd h m 12 \<and>
         rd (vec3_transformMat4 out a m h) out 1 =
           rd h m 1 * rd h a 0 + rd h m 5 * rd h a 1 + rd h m 9 * rd h a 2 + rd h m 13 \<and>
         rd (vec3_transformMat4 out a m h) out 2 =
           rd h m 2 * rd h a 0 + rd h m 6 * rd h a 1 + rd h m 10 * rd h a 2 + rd h m 14"
  using assms(1) len3 [OF assms(2)]
  by (simp add: vec3_transformMat4_def Let_def rd_wr length_wr div_one)

theorem vec3_transformMat4_w_zero_witness:
  "rd zero_row_matrix 1 3 * rd zero_row_matrix 0 0 + rd zero_row_matrix 1 7 * rd zero_row_matrix 0 1
     + rd zero_row_matrix 1 11 * rd zero_row_matrix 0 2 + rd zero_row_matrix 1 15 = Fin 0 \<and>
   3 \<le> length (zero_row_matrix 2) \<and>
   rd (vec3_transformMat4 2 0 1 zero_row_matrix) 2 0 = Fin 6 \<and>
   rd (vec3_transformMat4 2 0 1 zero_row_matrix) 2 1 = Fin 8 \<and>
   rd (vec3_transformMat4 2 0 1 zero_row_matrix) 2 2 = Fin 10"
proof -
  have hyp: "rd zero_row_matrix 1 3 * rd zero_row_matrix 0 0
     + rd zero_row_matrix 1 7 * rd zero_row_matrix 0 1
     + rd zero_row_matrix 1 11 * rd zero_row_matrix 0 2 + rd zero_row_matrix 1 15 = Fin 0"
    "3 \<le> length (zero_row_matrix 2)"
    by (simp_all add: zero_row_matrix_def store_of_def rd_def)
  have vals:
    "rd zero_row_matrix 1 0 * rd zero_row_matrix 0 0 + rd zero_row_matrix 1 4 * rd zero_row_matrix 0 1
       + rd zero_row_matrix 1 8 * rd zero_row_matrix 0 2 + rd zero_row_matrix 1 12 = Fin 6"
    "rd zero_row_matrix 1 1 * rd zero_row_matrix 0 0 + rd zero_row_matrix 1 5 * rd zero_row_matrix 0 1
       + rd zero_row_matrix 1 9 * rd zero_row_matrix 0 2 + rd zero_row_matrix 1 13 = Fin 8"
    "rd zero_row_matrix 1 2 * rd zero_row_matrix 0 0 + rd zero_row_matrix 1 6 * rd zero_row_matrix 0 1
       + rd zero_row_matrix 1 10 * rd zero_row_matrix 0 2 + rd zero_row_matrix 1 14 = Fin 10"
    by (simp_all add: zero_row_matrix_def store_of_def rd_def)
  from vec3_transformMat4_w_zero [where h = zero_row_matrix and m = 1 and a = 0 and out = 2]
    hyp vals
  show ?thesis by simp
qed


section \<open>Antipodal quaternions\<close>

lemma vec4_unit_Fin:
  assumes "vec4_squaredLength a h = Fin 1"
  shows "\<exists>x y z w. rd h a 0 = Fin x \<and> rd h a 1 = Fin y \<and> rd h a 2 = Fin z \<and> rd h a 3 = Fin w \<and>
     1 = x * x + y * y + z * z + w * w"
proof -
  from assms have "rd h a 0 * rd h a 0 + rd h a 1 * rd h a 1 + rd h a 2 * rd h a 2
      + rd h a 3 * rd h a 3 = Fin 1"
    by (simp add: vec4_squaredLength_def Let_def)
  from sq4_Fin [OF this] show ?thesis .
qed

text \<open>
  C6.  Let \<open>q\<close> be a unit quaternion and let \<^verbatim>\<open>vec4.negate\<close> write its negation into another
  array \<open>nq\<close>.  Then \<^verbatim>\<open>quat.equals(q, nq)\<close> is true, the absolute value of the dot product
  being 1, and \<^verbatim>\<open>vec4.exactEquals(q, nq)\<close> is false, a non-zero component differing from
  its negation.
\<close>

theorem quat_equals_antipodal:
  assumes unit: "vec4_squaredLength q h = Fin 1" and "nq \<noteq> q" and "4 \<le> length (h nq)"
  shows "quat_equals q nq (vec4_negate nq q h) \<and> \<not> vec4_exactEquals q nq (vec4_negate nq q h)"
proof -
  from vec4_unit_Fin [OF unit] obtain x y z w where
    q: "rd h q 0 = Fin x" "rd h q 1 = Fin y" "rd h q 2 = Fin z" "rd h q 3 = Fin w"
    and n: "1 = x * x + y * y + z * z + w * w"
    by blast
  let ?h = "vec4_negate nq q h"
  have rq: "rd ?h q 0 = Fin x" "rd ?h q 1 = Fin y" "rd ?h q 2 = Fin z" "rd ?h q 3 = Fin w"
    using q assms(2) by (simp_all add: vec4_negate_def Let_def rd_wr)
  have rn: "rd ?h nq 0 = Fin (- x)" "rd ?h nq 1 = Fin (- y)" "rd ?h nq 2 = Fin (- z)"
    "rd ?h nq 3 = Fin (- w)"
    using q assms(2) len4 [OF assms(3)] by (simp_all add: vec4_negate_def Let_def rd_wr length_wr)
  have "vec4_dot q nq ?h = Fin (- 1)"
    unfolding vec4_dot_def rq rn using n by simp
  then have eq: "quat_equals q nq ?h"
    by (simp add: quat_equals_def minus_number_def)
  have "\<not> (x = 0 \<and> y = 0 \<and> z = 0 \<and> w = 0)"
    using n by auto
  then have "\<not> vec4_exactEquals q nq ?h"
    unfolding vec4_exactEquals_def rq rn by auto
  with eq show ?thesis by simp
qed

theorem quat_equals_antipodal_witness:
  "vec4_squaredLength 0 unit_quat = Fin 1 \<and> (1::nat) \<noteq> 0 \<and> 4 \<le> length (unit_quat 1) \<and>
   quat_equals 0 1 (vec4_negate 1 0 unit_quat) \<and>
   \<not> vec4_exactEquals 0 1 (vec4_negate 1 0 unit_quat)"
proof -
  have hyp: "vec4_squaredLength 0 unit_quat = Fin 1" "4 \<le> length (unit_quat 1)"
    by (simp_all add: unit_quat_def store_of_def rd_def vec4_squaredLength_def)
  from quat_equals_antipodal [where h = unit_quat and q = 0 and nq = 1] hyp
  show ?thesis by simp
qed


section \<open>The angle returned by \<^verbatim>\<open>getAxisAngle\<close>\<close>

lemma small_sine_acos:
  assumes "\<bar>Math_sin (Math_acos x)\<bar> < Fin e"
  shows "\<exists>r. Math_acos x = Fin r \<and> \<bar>sin r\<bar> < e"
  using assms by (cases x) (auto split: if_splits)

text \<open>
  C1, as the code has it.  When the magnitude of \<^verbatim>\<open>sin(acos(q[3]))\<close> is below 1e-6,
  \<^verbatim>\<open>getAxisAngle\<close> writes the axis (1, 0, 0) and returns \<^verbatim>\<open>acos(q[3]) * 2\<close>, the same angle
  as in the other branch of the test.  That angle is 0 for \<^verbatim>\<open>q[3] = 1\<close> and is not 0
  otherwise.
\<close>

theorem getAxisAngle_small_sine:
  assumes "\<bar>Math_sin (Math_acos (rd h q 3))\<bar> < Fin 0.000001" and "3 \<le> length (h out_axis)"
  shows "fst (quat_getAxisAngle out_axis q h) = Math_acos (rd h q 3) * Fin 2 \<and>
         rd (snd (quat_getAxisAngle out_axis q h)) out_axis 0 = Fin 1 \<and>
         rd (snd (quat_getAxisAngle out_axis q h)) out_axis 1 = Fin 0 \<and>
         rd (snd (quat_getAxisAngle out_axis q h)) out_axis 2 = Fin 0"
proof -
  from small_sine_acos [OF assms(1)] obtain r where
    r: "Math_acos (rd h q 3) = Fin r" "\<bar>sin r\<bar> < 0.000001"
    by blast
  then have "\<not> sin r > 0.000001" by linarith
  with r(1) len3 [OF assms(2)] show ?thesis
    by (simp add: quat_getAxisAngle_def Let_def rd_wr length_wr)
qed

theorem getAxisAngle_small_sine_witness:
  "\<bar>Math_sin (Math_acos (rd antipodal_pair 0 3))\<bar> < Fin 0.000001 \<and>
   3 \<le> length (antipodal_pair 2) \<and>
   fst (quat_getAxisAngle 2 0 antipodal_pair) = Fin 0 \<and>
   rd (snd (quat_getAxisAngle 2 0 antipodal_pair)) 2 0 = Fin 1 \<and>
   rd (snd (quat_getAxisAngle 2 0 antipodal_pair)) 2 1 = Fin 0 \<and>
   rd (snd (quat_getAxisAngle 2 0 antipodal_pair)) 2 2 = Fin 0"
proof -
  have hyp: "\<bar>Math_sin (Math_acos (rd antipodal_pair 0 3))\<bar> < Fin 0.000001"
    "3 \<le> length (antipodal_pair 2)"
    by (simp_all add: antipodal_pair_def store_of_def rd_def)
  have val: "Math_acos (rd antipodal_pair 0 3) * Fin 2 = Fin 0"
    by (simp add: antipodal_pair_def store_of_def rd_def)
  from getAxisAngle_small_sine [where h = antipodal_pair and q = 0 and out_axis = 2] hyp val
  show ?thesis by simp
qed

text \<open>
  The quaternion (0, 0, 0, -1): the sine is 0, the axis written is (1, 0, 0), and the angle
  returned is \<open>2\<pi>\<close>, not 0.
\<close>

theorem getAxisAngle_angle_counterexample:
  "\<bar>Math_sin (Math_acos (rd antipodal_pair 1 3))\<bar> < Fin 0.000001 \<and>
   fst (quat_getAxisAngle 2 1 antipodal_pair) = Fin (2 * pi) \<and>
   fst (quat_getAxisAngle 2 1 antipodal_pair) \<noteq> Fin 0"
  by (simp add: quat_getAxisAngle_def Let_def antipodal_pair_def store_of_def rd_def)


section \<open>The ends of \<^verbatim>\<open>quat.slerp\<close>\<close>

lemma sin_arccos_nz:
  assumes "0 \<le> c" and "c < 1"
  shows "sin (arccos c) \<noteq> 0"
  using assms by (intro sin_arccos_nonzero) auto

text \<open>The components that \<^verbatim>\<open>slerp\<close> writes at t = 0 and at t = 1, for finite operands.\<close>

lemma quat_slerp_ends:
  assumes a: "rd h a 0 = Fin ax" "rd h a 1 = Fin ay" "rd h a 2 = Fin az" "rd h a 3 = Fin aw"
      and b: "rd h b 0 = Fin bx" "rd h b 1 = Fin by" "rd h b 2 = Fin bz" "rd h b 3 = Fin bw"
      and len: "4 \<le> length (h out)"
      and i: "i < 4"
  shows "rd (quat_slerp out a b (Fin 0) h) out i = rd h a i"
    and "rd (quat_slerp out a b (Fin 1) h) out i =
           (if vec4_dot a b h < Fin 0 then - rd h b i else rd h b i)"
proof -
  note a = a a [simplified] and b = b b [simplified]
  define c where "c = ax * bx + ay * by + az * bz + aw * bw"
  have dot: "vec4_dot a b h = Fin c"
    by (simp add: vec4_dot_def a b c_def)
  from i have i': "i = 0 \<or> i = 1 \<or> i = 2 \<or> i = 3" by auto
  show "rd (quat_slerp out a b (Fin 0) h) out i = rd h a i"
  proof (cases "0.000001 < 1 - \<bar>c\<bar>")
    case True
    then have "sin (arccos \<bar>c\<bar>) \<noteq> 0" by (intro sin_arccos_nz) auto
    with True i' len4 [OF len] show ?thesis
      by (cases "c < 0")
         (auto simp: quat_slerp_def Let_def rd_wr length_wr a b c_def [symmetric] minus_number_def)
  next
    case False
    with i' len4 [OF len] show ?thesis
      by (cases "c < 0")
         (auto simp: quat_slerp_def Let_def rd_wr length_wr a b c_def [symmetric] minus_number_def)
  qed
  show "rd (quat_slerp out a b (Fin 1) h) out i =
           (if vec4_dot a b h < Fin 0 then - rd h b i else rd h b i)"
  proof (cases "0.000001 < 1 - \<bar>c\<bar>")
    case True
    then have "sin (arccos \<bar>c\<bar>) \<noteq> 0" by (intro sin_arccos_nz) auto
    with True i' len4 [OF len] show ?thesis
      unfolding dot
      by (cases "c < 0")
         (auto simp: quat_slerp_def Let_def rd_wr length_wr a b c_def [symmetric] minus_number_def)
  next
    case False
    with i' len4 [OF len] show ?thesis
      unfolding dot
      by (cases "c < 0")
         (auto simp: quat_slerp_def Let_def rd_wr length_wr a b c_def [symmetric] minus_number_def)
  qed
qed

text \<open>Interpolating a unit quaternion with itself takes the linear branch.\<close>

lemma quat_slerp_same:
  assumes a: "rd h a 0 = Fin ax" "rd h a 1 = Fin ay" "rd h a 2 = Fin az" "rd h a 3 = Fin aw"
      and unit: "1 = ax * ax + ay * ay + az * az + aw * aw"
      and len: "4 \<le> length (h out)"
      and i: "i < 4"
  shows "rd (quat_slerp out a a (Fin t) h) out i = rd h a i"
proof -
  note a = a a [simplified]
  from i have i': "i = 0 \<or> i = 1 \<or> i = 2 \<or> i = 3" by auto
  have lin: "(1 - t) * x + t * x = x" for x :: real
    by (simp add: algebra_simps)
  from i' len4 [OF len] show ?thesis
    by (auto simp: quat_slerp_def Let_def rd_wr length_wr a unit [symmetric] minus_number_def lin)
qed

text \<open>\<^verbatim>\<open>vec4.equals\<close> is the test on each of the four pairs of components.\<close>

lemma vec4_equals_components:
  "vec4_equals a b h \<longleftrightarrow> (\<forall>i<4. equals_component (rd h a i) (rd h b i))"
proof -
  have "(\<forall>i<4. P i) \<longleftrightarrow> P 0 \<and> P 1 \<and> P 2 \<and> P (3::nat)" for P
  proof -
    have "i < 4 \<longleftrightarrow> i = 0 \<or> i = 1 \<or> i = 2 \<or> i = 3" for i :: nat by auto
    then show ?thesis by auto
  qed
  then show ?thesis
    by (simp add: vec4_equals_def equals_component_def Let_def)
qed

lemma equals_component_refl: "equals_component (Fin r) (Fin r)"
  by (simp add: equals_component_def minus_number_def)

text \<open>
  C2, as the code has it.  For unit quaternions \<open>a\<close> and \<open>b\<close> and a parameter \<open>t\<close> in the
  documented range from 0 to 1, each within the componentwise tolerance of \<^verbatim>\<open>vec4.equals\<close>:
  \<^verbatim>\<open>slerp(out, a, a, t)\<close> writes \<open>a\<close>; \<^verbatim>\<open>slerp(out, a, b, 0)\<close> writes \<open>a\<close>;
  \<^verbatim>\<open>slerp(out, a, b, 1)\<close> writes \<open>b\<close> when the dot product of \<open>a\<close> and \<open>b\<close> is not
  negative, and writes the negation of \<open>b\<close> when it is negative, the operand having been
  negated to take the shorter arc.  Every component \<open>i\<close> of the output is compared with what
  the operands held before the call, so the output may be one of them.
\<close>

theorem quat_slerp_endpoints:
  assumes "vec4_squaredLength a h = Fin 1" and "vec4_squaredLength b h = Fin 1"
      and "4 \<le> length (h out)" and "i < 4" and "0 \<le> t" and "t \<le> 1"
  shows "equals_component (rd (quat_slerp out a a (Fin t) h) out i) (rd h a i) \<and>
         equals_component (rd (quat_slerp out a b (Fin 0) h) out i) (rd h a i) \<and>
         equals_component (rd (quat_slerp out a b (Fin 1) h) out i)
           (if vec4_dot a b h < Fin 0 then - rd h b i else rd h b i)"
proof -
  from vec4_unit_Fin [OF assms(1)] obtain ax ay az aw where
    a: "rd h a 0 = Fin ax" "rd h a 1 = Fin ay" "rd h a 2 = Fin az" "rd h a 3 = Fin aw"
    and ua: "1 = ax * ax + ay * ay + az * az + aw * aw"
    by blast
  from vec4_unit_Fin [OF assms(2)] obtain bx "by" bz bw where
    b: "rd h b 0 = Fin bx" "rd h b 1 = Fin by" "rd h b 2 = Fin bz" "rd h b 3 = Fin bw"
    by blast
  from assms(4) have i: "i = 0 \<or> i = 1 \<or> i = 2 \<or> i = 3" by auto
  from i a obtain ra where ra: "rd h a i = Fin ra" by auto
  from i b obtain rb where rb: "rd h b i = Fin rb" by auto
  have same: "rd (quat_slerp out a a (Fin t) h) out i = Fin ra"
    using quat_slerp_same [OF a ua assms(3,4)] ra by simp
  have first: "rd (quat_slerp out a b (Fin 0) h) out i = Fin ra"
    using quat_slerp_ends(1) [OF a b assms(3,4)] ra by simp
  have last: "rd (quat_slerp out a b (Fin 1) h) out i =
      (if vec4_dot a b h < Fin 0 then Fin (- rb) else Fin rb)"
    using quat_slerp_ends(2) [OF a b assms(3,4)] rb by simp
  show ?thesis
    unfolding same first last ra rb
    by (simp add: equals_component_refl)
qed

theorem quat_slerp_endpoints_witness:
  "vec4_squaredLength 0 antipodal_pair = Fin 1 \<and> vec4_squaredLength 1 antipodal_pair = Fin 1 \<and>
   4 \<le> length (antipodal_pair 2) \<and> (3::nat) < 4 \<and> (0::real) \<le> 0.25 \<and> (0.25::real) \<le> 1 \<and>
   equals_component (rd (quat_slerp 2 0 0 (Fin 0.25) antipodal_pair) 2 3) (Fin 1) \<and>
   equals_component (rd (quat_slerp 2 0 1 (Fin 0) antipodal_pair) 2 3) (Fin 1) \<and>
   vec4_dot 0 1 antipodal_pair < Fin 0 \<and>
   equals_component (rd (quat_slerp 2 0 1 (Fin 1) antipodal_pair) 2 3) (Fin 1)"
proof -
  have hyp: "vec4_squaredLength 0 antipodal_pair = Fin 1"
    "vec4_squaredLength 1 antipodal_pair = Fin 1" "4 \<le> length (antipodal_pair 2)"
    "(0::real) \<le> 0.25" "(0.25::real) \<le> 1"
    by (simp_all add: antipodal_pair_def store_of_def rd_def vec4_squaredLength_def)
  have vals: "rd antipodal_pair 0 3 = Fin 1" "rd antipodal_pair 1 3 = Fin (- 1)"
    "vec4_dot 0 1 antipodal_pair < Fin 0"
    by (simp_all add: antipodal_pair_def store_of_def rd_def vec4_dot_def)
  from quat_slerp_endpoints
    [where h = antipodal_pair and a = 0 and b = 1 and out = 2 and i = 3 and t = "0.25"]
    hyp vals
  show ?thesis by simp
qed

text \<open>
  The unit quaternions a = (0, 0, 0, 1) and b = (0, 0, 0, -1): \<^verbatim>\<open>slerp(out, a, b, 1)\<close> writes
  (0, 0, 0, 1), which \<^verbatim>\<open>vec4.equals\<close>, the componentwise comparison with tolerance 1e-6,
  tells apart from \<open>b\<close>.
\<close>

theorem quat_slerp_end_counterexample:
  "vec4_squaredLength 0 antipodal_pair = Fin 1 \<and> vec4_squaredLength 1 antipodal_pair = Fin 1 \<and>
   antipodal_pair 1 = [Fin 0, Fin 0, Fin 0, Fin (- 1)] \<and>
   quat_slerp 2 0 1 (Fin 1) antipodal_pair 2 = [Fin 0, Fin 0, Fin 0, Fin 1] \<and>
   \<not> vec4_equals 2 1 (quat_slerp 2 0 1 (Fin 1) antipodal_pair)"
  by (simp add: antipodal_pair_def store_of_def rd_def wr_def vec4_squaredLength_def
      quat_slerp_def vec4_equals_def Let_def minus_number_def)


section \<open>The order argument of \<^verbatim>\<open>fromEuler\<close>\<close>

text \<open>
  C5, as the code has it.  Whatever numbers the enum gives its six members, as long as they
  are distinct: an order argument that is a number other than those six makes
  \<^verbatim>\<open>fromEuler\<close> throw; an order argument that is the number of a member makes it run the
  case of that member and return; and an order argument that is \<^verbatim>\<open>undefined\<close>, or left out,
  is replaced by \<^verbatim>\<open>AngleOrder.ZYX\<close>, the default of the parameter, and does not throw.
\<close>

theorem fromEuler_order:
  assumes "inj code"
  shows "(\<forall>v. (\<forall>ord. v \<noteq> Fin (code ord)) \<longrightarrow>
            quat_fromEuler code out x y z (Some v) h = Inl (UnknownAngleOrder v)) \<and>
         (\<forall>ord. quat_fromEuler code out x y z (Some (Fin (code ord))) h =
            Inr (fromEuler_case ord
                   (Math_sin (x * (Math_PI / Fin 360))) (Math_cos (x * (Math_PI / Fin 360)))
                   (Math_sin (y * (Math_PI / Fin 360))) (Math_cos (y * (Math_PI / Fin 360)))
                   (Math_sin (z * (Math_PI / Fin 360))) (Math_cos (z * (Math_PI / Fin 360)))
                   out h)) \<and>
         quat_fromEuler code out x y z None h =
           quat_fromEuler code out x y z (Some (Fin (code ZYX))) h"
proof (intro conjI allI impI)
  fix v assume "\<forall>ord. v \<noteq> Fin (code ord)"
  then have "\<not> strict_eq v (Fin (code ord))" for ord
    by (cases v) auto
  then show "quat_fromEuler code out x y z (Some v) h = Inl (UnknownAngleOrder v)"
    by (simp add: quat_fromEuler_def Let_def)
next
  fix ord
  from assms have "code ord = code ord' \<longleftrightarrow> ord = ord'" for ord'
    by (auto dest: injD)
  then show "quat_fromEuler code out x y z (Some (Fin (code ord))) h =
            Inr (fromEuler_case ord
                   (Math_sin (x * (Math_PI / Fin 360))) (Math_cos (x * (Math_PI / Fin 360)))
                   (Math_sin (y * (Math_PI / Fin 360))) (Math_cos (y * (Math_PI / Fin 360)))
                   (Math_sin (z * (Math_PI / Fin 360))) (Math_cos (z * (Math_PI / Fin 360)))
                   out h)"
    unfolding quat_fromEuler_def Let_def
    by (cases ord) simp_all
next
  show "quat_fromEuler code out x y z None h =
     quat_fromEuler code out x y z (Some (Fin (code ZYX))) h"
    by (simp add: quat_fromEuler_def)
qed

lemma inj_angle_order_code: "inj angle_order_code"
proof (rule injI)
  fix p q assume "angle_order_code p = angle_order_code q"
  then show "p = q" by (cases p; cases q) simp_all
qed

theorem fromEuler_order_witness:
  "inj angle_order_code \<and>
   quat_fromEuler angle_order_code 1 (Fin 0) (Fin 0) (Fin 0) (Some (Fin 6)) zero_vectors =
     Inl (UnknownAngleOrder (Fin 6)) \<and>
   quat_fromEuler angle_order_code 1 (Fin 0) (Fin 0) (Fin 0) (Some (Fin (angle_order_code YXZ)))
       zero_vectors =
     Inr (fromEuler_case YXZ (Fin 0) (Fin 1) (Fin 0) (Fin 1) (Fin 0) (Fin 1) 1 zero_vectors) \<and>
   quat_fromEuler angle_order_code 1 (Fin 0) (Fin 0) (Fin 0) None zero_vectors =
     quat_fromEuler angle_order_code 1 (Fin 0) (Fin 0) (Fin 0) (Some (Fin (angle_order_code ZYX)))
       zero_vectors"
proof -
  have no: "\<forall>ord. Fin 6 \<noteq> Fin (angle_order_code ord)"
  proof
    fix ord show "Fin 6 \<noteq> Fin (angle_order_code ord)" by (cases ord) simp_all
  qed
  have trig: "Math_sin (Fin 0 * (Math_PI / Fin 360)) = Fin 0"
    "Math_cos (Fin 0 * (Math_PI / Fin 360)) = Fin 1"
    by (simp_all add: Math_PI_def)
  note inst = fromEuler_order [OF inj_angle_order_code, of 1 "Fin 0" "Fin 0" "Fin 0" zero_vectors]
  show ?thesis
  proof (intro conjI)
    show "inj angle_order_code" by (fact inj_angle_order_code)
    show "quat_fromEuler angle_order_code 1 (Fin 0) (Fin 0) (Fin 0) (Some (Fin 6)) zero_vectors =
        Inl (UnknownAngleOrder (Fin 6))"
      using inst no by blast
    show "quat_fromEuler angle_order_code 1 (Fin 0) (Fin 0) (Fin 0)
        (Some (Fin (angle_order_code YXZ))) zero_vectors =
        Inr (fromEuler_case YXZ (Fin 0) (Fin 1) (Fin 0) (Fin 1) (Fin 0) (Fin 1) 1 zero_vectors)"
      using inst unfolding trig by blast
    show "quat_fromEuler angle_order_code 1 (Fin 0) (Fin 0) (Fin 0) None zero_vectors =
        quat_fromEuler angle_order_code 1 (Fin 0) (Fin 0) (Fin 0)
          (Some (Fin (angle_order_code ZYX))) zero_vectors"
      using inst by blast
  qed
qed

text \<open>
  The order argument left out: \<^verbatim>\<open>fromEuler\<close> returns, having written the identity
  quaternion for the angles 0, 0, 0.
\<close>

theorem fromEuler_default_counterexample:
  "\<not> isl (quat_fromEuler angle_order_code 1 (Fin 0) (Fin 0) (Fin 0) None zero_vectors) \<and>
   projr (quat_fromEuler angle_order_code 1 (Fin 0) (Fin 0) (Fin 0) None zero_vectors) 1 =
     [Fin 0, Fin 0, Fin 0, Fin 1]"
  by (simp add: quat_fromEuler_def Let_def Math_PI_def zero_vectors_def store_of_def wr_def
      minus_number_def)


section \<open>Length of the arrays\<close>

lemma length_vec3_cross: "length (vec3_cross out a b h p) = length (h p)"
  by (simp add: vec3_cross_def Let_def length_wr)

lemma length_vec3_normalize: "length (vec3_normalize out a h p) = length (h p)"
  by (simp add: vec3_normalize_def Let_def length_wr)

lemma length_quat_setAxisAngle: "length (quat_setAxisAngle out axis rad h p) = length (h p)"
  by (simp add: quat_setAxisAngle_def Let_def length_wr)


section \<open>\<^verbatim>\<open>rotationTo\<close> on opposite vectors\<close>

text \<open>
  C4.  With the module loaded, a = (1, 0, 0) and b = (-1, 0, 0), \<^verbatim>\<open>rotationTo\<close> takes the
  first branch, finds the cross product with the x axis to be zero, falls back to the
  y axis, and writes the quaternion (0, 0, -1, 0): finite components, a half turn about the
  z axis.  \<^verbatim>\<open>vec3.transformQuat\<close> of \<open>a\<close> by that quaternion is (-1, 0, 0).
\<close>

theorem rotationTo_antiparallel_x:
  assumes cl: "closure_loaded c h"
      and a: "h a = [Fin 1, Fin 0, Fin 0]" and b: "h b = [Fin (- 1), Fin 0, Fin 0]"
      and lo: "length (h out) = 4" and lv: "length (h v) = 3"
      and disj: "{out, a, b, v} \<inter> {tmpvec3 c, xUnitVec3 c, yUnitVec3 c} = {}"
  shows "rd (quat_rotationTo c out a b h) out 0 = Fin 0 \<and>
         rd (quat_rotationTo c out a b h) out 1 = Fin 0 \<and>
         rd (quat_rotationTo c out a b h) out 2 = Fin (- 1) \<and>
         rd (quat_rotationTo c out a b h) out 3 = Fin 0 \<and>
         rd (vec3_transformQuat v a out (quat_rotationTo c out a b h)) v 0 = Fin (- 1) \<and>
         rd (vec3_transformQuat v a out (quat_rotationTo c out a b h)) v 1 = Fin 0 \<and>
         rd (vec3_transformQuat v a out (quat_rotationTo c out a b h)) v 2 = Fin 0"
proof -
  let ?t = "tmpvec3 c" and ?x = "xUnitVec3 c" and ?y = "yUnitVec3 c"
  from cl have lt: "length (h ?t) = 3" and hx: "h ?x = [Fin 1, Fin 0, Fin 0]"
    and hy: "h ?y = [Fin 0, Fin 1, Fin 0]" and d: "?t \<noteq> ?x" "?t \<noteq> ?y" "?x \<noteq> ?y"
    by (auto simp: closure_loaded_def)
  from disj have n: "out \<noteq> ?t" "a \<noteq> ?t" "b \<noteq> ?t" "v \<noteq> ?t" "?t \<noteq> out" "?t \<noteq> a" "?t \<noteq> b"
    by auto
  from lo lv a have ne: "out \<noteq> a" "v \<noteq> out" "out \<noteq> v" by auto
  have vals:
    "rd h a 0 = Fin 1" "rd h a (Suc 0) = Fin 0" "rd h a 2 = Fin 0"
    "rd h b 0 = Fin (- 1)" "rd h b (Suc 0) = Fin 0" "rd h b 2 = Fin 0"
    "rd h ?x 0 = Fin 1" "rd h ?x (Suc 0) = Fin 0" "rd h ?x 2 = Fin 0"
    "rd h ?y 0 = Fin 0" "rd h ?y (Suc 0) = Fin 1" "rd h ?y 2 = Fin 0"
    by (simp_all add: rd_def a b hx hy)
  have dot: "vec3_dot a b h = Fin (- 1)"
    by (simp add: vec3_dot_def vals)
  define h1 where "h1 = vec3_cross ?t ?x a h"
  have h1: "rd h1 ?t 0 = Fin 0" "rd h1 ?t 1 = Fin 0" "rd h1 ?t 2 = Fin 0"
    "rd h1 ?y 0 = Fin 0" "rd h1 ?y 1 = Fin 1" "rd h1 ?y 2 = Fin 0"
    "rd h1 a 0 = Fin 1" "rd h1 a 1 = Fin 0" "rd h1 a 2 = Fin 0"
    "length (h1 ?t) = 3" "length (h1 out) = 4"
    using d n lt lo
    by (simp_all add: h1_def vec3_cross_def Let_def rd_wr length_wr vals minus_number_def)
  have len1: "vec3_length ?t h1 < Fin 0.000001"
    by (simp add: vec3_length_def Let_def h1 h1 [simplified])
  define h2 where "h2 = vec3_cross ?t ?y a h1"
  have h2: "rd h2 ?t 0 = Fin 0" "rd h2 ?t 1 = Fin 0" "rd h2 ?t 2 = Fin (- 1)"
    "length (h2 ?t) = 3" "length (h2 out) = 4"
    "rd h2 a 0 = Fin 1" "rd h2 a 1 = Fin 0" "rd h2 a 2 = Fin 0"
    using d n h1(10,11)
    by (simp_all add: h2_def vec3_cross_def Let_def rd_wr length_wr h1 h1 [simplified]
        minus_number_def)
  define h3 where "h3 = vec3_normalize ?t ?t h2"
  have h3: "rd h3 ?t 0 = Fin 0" "rd h3 ?t 1 = Fin 0" "rd h3 ?t 2 = Fin (- 1)"
    "length (h3 out) = 4" "rd h3 a 0 = Fin 1" "rd h3 a 1 = Fin 0" "rd h3 a 2 = Fin 0"
    using n h2(4,5)
    by (simp_all add: h3_def vec3_normalize_def Let_def rd_wr length_wr h2 h2 [simplified])
  define h4 where "h4 = quat_setAxisAngle out ?t Math_PI h3"
  have h4: "rd h4 out 0 = Fin 0" "rd h4 out 1 = Fin 0" "rd h4 out 2 = Fin (- 1)"
    "rd h4 out 3 = Fin 0" "rd h4 a 0 = Fin 1" "rd h4 a 1 = Fin 0" "rd h4 a 2 = Fin 0"
    using n ne h3(4)
    by (simp_all add: h4_def quat_setAxisAngle_def Math_PI_def Let_def rd_wr length_wr
        h3 h3 [simplified])
  have lv4: "length (h4 v) = 3"
    using lv
    by (simp add: h4_def h3_def h2_def h1_def length_quat_setAxisAngle length_vec3_normalize
        length_vec3_cross)
  have res: "quat_rotationTo c out a b h = h4"
    using len1
    by (simp add: quat_rotationTo_def dot Let_def h4_def h3_def h2_def h1_def)
  show ?thesis
    unfolding res using lv4
    by (simp add: vec3_transformQuat_def Let_def rd_wr length_wr h4 h4 [simplified]
        minus_number_def)
qed

theorem rotationTo_antiparallel_x_witness:
  "closure_loaded module_closure opposite_vectors \<and>
   opposite_vectors 3 = [Fin 1, Fin 0, Fin 0] \<and> opposite_vectors 4 = [Fin (- 1), Fin 0, Fin 0] \<and>
   length (opposite_vectors 5) = 4 \<and> length (opposite_vectors 6) = 3 \<and>
   {5, 3, 4, 6} \<inter> {tmpvec3 module_closure, xUnitVec3 module_closure, yUnitVec3 module_closure}
     = {} \<and>
   rd (quat_rotationTo module_closure 5 3 4 opposite_vectors) 5 0 = Fin 0 \<and>
   rd (quat_rotationTo module_closure 5 3 4 opposite_vectors) 5 1 = Fin 0 \<and>
   rd (quat_rotationTo module_closure 5 3 4 opposite_vectors) 5 2 = Fin (- 1) \<and>
   rd (quat_rotationTo module_closure 5 3 4 opposite_vectors) 5 3 = Fin 0 \<and>
   rd (vec3_transformQuat 6 3 5 (quat_rotationTo module_closure 5 3 4 opposite_vectors)) 6 0
     = Fin (- 1) \<and>
   rd (vec3_transformQuat 6 3 5 (quat_rotationTo module_closure 5 3 4 opposite_vectors)) 6 1
     = Fin 0 \<and>
   rd (vec3_transformQuat 6 3 5 (quat_rotationTo module_closure 5 3 4 opposite_vectors)) 6 2
     = Fin 0"
proof -
  have hyp: "closure_loaded module_closure opposite_vectors"
    "opposite_vectors 3 = [Fin 1, Fin 0, Fin 0]" "opposite_vectors 4 = [Fin (- 1), Fin 0, Fin 0]"
    "length (opposite_vectors 5) = 4" "length (opposite_vectors 6) = 3"
    "{5, 3, 4, 6} \<inter> {tmpvec3 module_closure, xUnitVec3 module_closure,
       yUnitVec3 module_closure} = {}"
    by (simp_all add: closure_loaded_def module_closure_def opposite_vectors_def store_of_def)
  from rotationTo_antiparallel_x
    [where c = module_closure and h = opposite_vectors and a = 3 and b = 4 and out = 5 and v = 6]
    hyp
  show ?thesis by blast
qed


section \<open>Output aliased to an input\<close>

lemma wr_apply: "wr h p i v q = (if q = p then (h p)[i := v] else h q)"
  by (simp add: wr_def)

lemma alias_safe3I:
  assumes "\<And>out fresh h p.
    \<lbrakk>fresh \<noteq> out; fresh \<notin> ins; p \<noteq> fresh;
     h fresh \<noteq> []; Suc 0 < length (h fresh); 2 < length (h fresh);
     h out \<noteq> []; Suc 0 < length (h out); 2 < length (h out)\<rbrakk>
    \<Longrightarrow> f out h p = vec3_copy out fresh (f fresh h) p"
  shows "alias_safe3 f ins"
  unfolding alias_safe3_def
proof (intro allI impI, elim conjE)
  fix out fresh p and h :: store
  assume "fresh \<notin> insert out ins" "3 \<le> length (h fresh)" "3 \<le> length (h out)" "p \<noteq> fresh"
  with len3 [of "h fresh"] len3 [of "h out"]
  show "f out h p = vec3_copy out fresh (f fresh h) p"
    by (intro assms) auto
qed

lemma alias_safe4I:
  assumes "\<And>out fresh h p.
    \<lbrakk>fresh \<noteq> out; fresh \<notin> ins; p \<noteq> fresh;
     h fresh \<noteq> []; Suc 0 < length (h fresh); 2 < length (h fresh); 3 < length (h fresh);
     h out \<noteq> []; Suc 0 < length (h out); 2 < length (h out); 3 < length (h out)\<rbrakk>
    \<Longrightarrow> f out h p = vec4_copy out fresh (f fresh h) p"
  shows "alias_safe4 f ins"
  unfolding alias_safe4_def
proof (intro allI impI, elim conjE)
  fix out fresh p and h :: store
  assume "fresh \<notin> insert out ins" "4 \<le> length (h fresh)" "4 \<le> length (h out)" "p \<noteq> fresh"
  with len4 [of "h fresh"] len4 [of "h out"]
  show "f out h p = vec4_copy out fresh (f fresh h) p"
    by (intro assms) auto
qed

text \<open>The operations that never read their output back.\<close>

lemma vec3_copy_alias: "alias_safe3 (\<lambda>out. vec3_copy out a) {a}"
  by (rule alias_safe3I) (simp add: vec3_copy_def Let_def rd_wr length_wr wr_apply)

lemma vec3_add_alias: "alias_safe3 (\<lambda>out. vec3_add out a b) {a, b}"
  by (rule alias_safe3I) (simp add: vec3_add_def vec3_copy_def Let_def rd_wr length_wr wr_apply)

lemma vec3_subtract_alias: "alias_safe3 (\<lambda>out. vec3_subtract out a b) {a, b}"
  by (rule alias_safe3I) (simp add: vec3_subtract_def vec3_copy_def Let_def rd_wr length_wr wr_apply)

lemma vec3_multiply_alias: "alias_safe3 (\<lambda>out. vec3_multiply out a b) {a, b}"
  by (rule alias_safe3I) (simp add: vec3_multiply_def vec3_copy_def Let_def rd_wr length_wr wr_apply)

lemma vec3_divide_alias: "alias_safe3 (\<lambda>out. vec3_divide out a b) {a, b}"
  by (rule alias_safe3I) (simp add: vec3_divide_def vec3_copy_def Let_def rd_wr length_wr wr_apply)

lemma vec3_ceil_alias: "alias_safe3 (\<lambda>out. vec3_ceil out a) {a}"
  by (rule alias_safe3I) (simp add: vec3_ceil_def vec3_copy_def Let_def rd_wr length_wr wr_apply)

lemma vec3_floor_alias: "alias_safe3 (\<lambda>out. vec3_floor out a) {a}"
  by (rule alias_safe3I) (simp add: vec3_floor_def vec3_copy_def Let_def rd_wr length_wr wr_apply)

lemma vec3_min_alias: "alias_safe3 (\<lambda>out. vec3_min out a b) {a, b}"
  by (rule alias_safe3I) (simp add: vec3_min_def vec3_copy_def Let_def rd_wr length_wr wr_apply)

lemma vec3_max_alias: "alias_safe3 (\<lambda>out. vec3_max out a b) {a, b}"
  by (rule alias_safe3I) (simp add: vec3_max_def vec3_copy_def Let_def rd_wr length_wr wr_apply)

lemma vec3_round_alias: "alias_safe3 (\<lambda>out. vec3_round out a) {a}"
  by (rule alias_safe3I) (simp add: vec3_round_def vec3_copy_def Let_def rd_wr length_wr wr_apply)

lemma vec3_scale_alias: "alias_safe3 (\<lambda>out. vec3_scale out a s) {a}"
  by (rule alias_safe3I) (simp add: vec3_scale_def vec3_copy_def Let_def rd_wr length_wr wr_apply)

lemma vec3_scaleAndAdd_alias: "alias_safe3 (\<lambda>out. vec3_scaleAndAdd out a b s) {a, b}"
  by (rule alias_safe3I) (simp add: vec3_scaleAndAdd_def vec3_copy_def Let_def rd_wr length_wr wr_apply)

lemma vec3_negate_alias: "alias_safe3 (\<lambda>out. vec3_negate out a) {a}"
  by (rule alias_safe3I) (simp add: vec3_negate_def vec3_copy_def Let_def rd_wr length_wr wr_apply)

lemma vec3_inverse_alias: "alias_safe3 (\<lambda>out. vec3_inverse out a) {a}"
  by (rule alias_safe3I) (simp add: vec3_inverse_def vec3_copy_def Let_def rd_wr length_wr wr_apply)

lemma vec3_normalize_alias: "alias_safe3 (\<lambda>out. vec3_normalize out a) {a}"
  by (rule alias_safe3I) (simp add: vec3_normalize_def vec3_copy_def Let_def rd_wr length_wr wr_apply)

lemma vec3_cross_alias: "alias_safe3 (\<lambda>out. vec3_cross out a b) {a, b}"
  by (rule alias_safe3I) (simp add: vec3_cross_def vec3_copy_def Let_def rd_wr length_wr wr_apply)

lemma vec3_lerp_alias: "alias_safe3 (\<lambda>out. vec3_lerp out a b t) {a, b}"
  by (rule alias_safe3I) (simp add: vec3_lerp_def vec3_copy_def Let_def rd_wr length_wr wr_apply)

lemma vec3_slerp_alias: "alias_safe3 (\<lambda>out. vec3_slerp out a b t) {a, b}"
  by (rule alias_safe3I) (simp add: vec3_slerp_def vec3_copy_def vec3_dot_def Let_def rd_wr length_wr wr_apply)

lemma vec3_hermite_alias: "alias_safe3 (\<lambda>out. vec3_hermite out a b c d t) {a, b, c, d}"
  by (rule alias_safe3I) (simp add: vec3_hermite_def vec3_copy_def Let_def rd_wr length_wr wr_apply)

lemma vec3_bezier_alias: "alias_safe3 (\<lambda>out. vec3_bezier out a b c d t) {a, b, c, d}"
  by (rule alias_safe3I) (simp add: vec3_bezier_def vec3_copy_def Let_def rd_wr length_wr wr_apply)

lemma vec3_transformMat4_alias: "alias_safe3 (\<lambda>out. vec3_transformMat4 out a b) {a, b}"
  by (rule alias_safe3I) (simp add: vec3_transformMat4_def vec3_copy_def Let_def rd_wr length_wr wr_apply)

lemma vec3_transformQuat_alias: "alias_safe3 (\<lambda>out. vec3_transformQuat out a b) {a, b}"
  by (rule alias_safe3I) (simp add: vec3_transformQuat_def vec3_copy_def Let_def rd_wr length_wr wr_apply)

lemma vec3_rotateX_alias: "alias_safe3 (\<lambda>out. vec3_rotateX out a b rad) {a, b}"
  by (rule alias_safe3I) (simp add: vec3_rotateX_def vec3_copy_def Let_def rd_wr length_wr wr_apply)

lemma vec3_rotateY_alias: "alias_safe3 (\<lambda>out. vec3_rotateY out a b rad) {a, b}"
  by (rule alias_safe3I) (simp add: vec3_rotateY_def vec3_copy_def Let_def rd_wr length_wr wr_apply)

lemma vec3_rotateZ_alias: "alias_safe3 (\<lambda>out. vec3_rotateZ out a b rad) {a, b}"
  by (rule alias_safe3I) (simp add: vec3_rotateZ_def vec3_copy_def Let_def rd_wr length_wr wr_apply)

lemma vec4_copy_alias: "alias_safe4 (\<lambda>out. vec4_copy out a) {a}"
  by (rule alias_safe4I) (simp add: vec4_copy_def Let_def rd_wr length_wr wr_apply)

lemma vec4_add_alias: "alias_safe4 (\<lambda>out. vec4_add out a b) {a, b}"
  by (rule alias_safe4I) (simp add: vec4_add_def vec4_copy_def Let_def rd_wr length_wr wr_apply)

lemma vec4_subtract_alias: "alias_safe4 (\<lambda>out. vec4_subtract out a b) {a, b}"
  by (rule alias_safe4I) (simp add: vec4_subtract_def vec4_copy_def Let_def rd_wr length_wr wr_apply)

lemma vec4_multiply_alias: "alias_safe4 (\<lambda>out. vec4_multiply out a b) {a, b}"
  by (rule alias_safe4I) (simp add: vec4_multiply_def vec4_copy_def Let_def rd_wr length_wr wr_apply)

lemma vec4_divide_alias: "alias_safe4 (\<lambda>out. vec4_divide out a b) {a, b}"
  by (rule alias_safe4I) (simp add: vec4_divide_def vec4_copy_def Let_def rd_wr length_wr wr_apply)

lemma vec4_ceil_alias: "alias_safe4 (\<lambda>out. vec4_ceil out a) {a}"
  by (rule alias_safe4I) (simp add: vec4_ceil_def vec4_copy_def Let_def rd_wr length_wr wr_apply)

lemma vec4_floor_alias: "alias_safe4 (\<lambda>out. vec4_floor out a) {a}"
  by (rule alias_safe4I) (simp add: vec4_floor_def vec4_copy_def Let_def rd_wr length_wr wr_apply)

lemma vec4_min_alias: "alias_safe4 (\<lambda>out. vec4_min out a b) {a, b}"
  by (rule alias_safe4I) (simp add: vec4_min_def vec4_copy_def Let_def rd_wr length_wr wr_apply)

lemma vec4_max_alias: "alias_safe4 (\<lambda>out. vec4_max out a b) {a, b}"
  by (rule alias_safe4I) (simp add: vec4_max_def vec4_copy_def Let_def rd_wr length_wr wr_apply)

lemma vec4_round_alias: "alias_safe4 (\<lambda>out. vec4_round out a) {a}"
  by (rule alias_safe4I) (simp add: vec4_round_def vec4_copy_def Let_def rd_wr length_wr wr_apply)

lemma vec4_scale_alias: "alias_safe4 (\<lambda>out. vec4_scale out a s) {a}"
  by (rule alias_safe4I) (simp add: vec4_scale_def vec4_copy_def Let_def rd_wr length_wr wr_apply)

lemma vec4_scaleAndAdd_alias: "alias_safe4 (\<lambda>out. vec4_scaleAndAdd out a b s) {a, b}"
  by (rule alias_safe4I) (simp add: vec4_scaleAndAdd_def vec4_copy_def Let_def rd_wr length_wr wr_apply)

lemma vec4_negate_alias: "alias_safe4 (\<lambda>out. vec4_negate out a) {a}"
  by (rule alias_safe4I) (simp add: vec4_negate_def vec4_copy_def Let_def rd_wr length_wr wr_apply)

lemma vec4_inverse_alias: "alias_safe4 (\<lambda>out. vec4_inverse out a) {a}"
  by (rule alias_safe4I) (simp add: vec4_inverse_def vec4_copy_def Let_def rd_wr length_wr wr_apply)

lemma vec4_normalize_alias: "alias_safe4 (\<lambda>out. vec4_normalize out a) {a}"
  by (rule alias_safe4I) (simp add: vec4_normalize_def vec4_copy_def Let_def rd_wr length_wr wr_apply)

lemma vec4_cross_alias: "alias_safe4 (\<lambda>out. vec4_cross out a b c) {a, b, c}"
  by (rule alias_safe4I) (simp add: vec4_cross_def vec4_copy_def Let_def rd_wr length_wr wr_apply)

lemma vec4_lerp_alias: "alias_safe4 (\<lambda>out. vec4_lerp out a b t) {a, b}"
  by (rule alias_safe4I) (simp add: vec4_lerp_def vec4_copy_def Let_def rd_wr length_wr wr_apply)

lemma vec4_transformMat4_alias: "alias_safe4 (\<lambda>out. vec4_transformMat4 out a b) {a, b}"
  by (rule alias_safe4I) (simp add: vec4_transformMat4_def vec4_copy_def Let_def rd_wr length_wr wr_apply)

lemma vec4_transformQuat_alias: "alias_safe4 (\<lambda>out. vec4_transformQuat out a b) {a, b}"
  by (rule alias_safe4I) (simp add: vec4_transformQuat_def vec4_copy_def Let_def rd_wr length_wr wr_apply)

lemma quat_setAxisAngle_alias: "alias_safe4 (\<lambda>out. quat_setAxisAngle out a rad) {a}"
  by (rule alias_safe4I) (simp add: quat_setAxisAngle_def vec4_copy_def Let_def rd_wr length_wr wr_apply)

lemma quat_multiply_alias: "alias_safe4 (\<lambda>out. quat_multiply out a b) {a, b}"
  by (rule alias_safe4I) (simp add: quat_multiply_def vec4_copy_def Let_def rd_wr length_wr wr_apply)

lemma quat_rotateX_alias: "alias_safe4 (\<lambda>out. quat_rotateX out a rad) {a}"
  by (rule alias_safe4I) (simp add: quat_rotateX_def vec4_copy_def Let_def rd_wr length_wr wr_apply)

lemma quat_rotateY_alias: "alias_safe4 (\<lambda>out. quat_rotateY out a rad) {a}"
  by (rule alias_safe4I) (simp add: quat_rotateY_def vec4_copy_def Let_def rd_wr length_wr wr_apply)

lemma quat_rotateZ_alias: "alias_safe4 (\<lambda>out. quat_rotateZ out a rad) {a}"
  by (rule alias_safe4I) (simp add: quat_rotateZ_def vec4_copy_def Let_def rd_wr length_wr wr_apply)

lemma quat_calculateW_alias: "alias_safe4 (\<lambda>out. quat_calculateW out a) {a}"
  by (rule alias_safe4I) (simp add: quat_calculateW_def vec4_copy_def Let_def rd_wr length_wr wr_apply)

lemma quat_exp_alias: "alias_safe4 (\<lambda>out. quat_exp out a) {a}"
  by (rule alias_safe4I) (simp add: quat_exp_def vec4_copy_def Let_def rd_wr length_wr wr_apply)

lemma quat_ln_alias: "alias_safe4 (\<lambda>out. quat_ln out a) {a}"
  by (rule alias_safe4I) (simp add: quat_ln_def vec4_copy_def Let_def rd_wr length_wr wr_apply)

lemma quat_slerp_alias: "alias_safe4 (\<lambda>out. quat_slerp out a b t) {a, b}"
  by (rule alias_safe4I) (simp add: quat_slerp_def vec4_copy_def Let_def rd_wr length_wr wr_apply)

lemma quat_invert_alias: "alias_safe4 (\<lambda>out. quat_invert out a) {a}"
  by (rule alias_safe4I) (simp add: quat_invert_def vec4_copy_def Let_def rd_wr length_wr wr_apply)

lemma quat_conjugate_alias: "alias_safe4 (\<lambda>out. quat_conjugate out a) {a}"
  by (rule alias_safe4I) (simp add: quat_conjugate_def vec4_copy_def Let_def rd_wr length_wr wr_apply)

lemma quat_getAxisAngle_alias:
  "alias_safe3 (\<lambda>out h. snd (quat_getAxisAngle out a h)) {a}"
  by (rule alias_safe3I)
     (simp add: quat_getAxisAngle_def vec3_copy_def Let_def rd_wr length_wr wr_apply)

lemma quat_getAxisAngle_angle:
  "fst (quat_getAxisAngle out a h) = fst (quat_getAxisAngle fresh a h)"
  by (simp add: quat_getAxisAngle_def Let_def)

lemma quat_multiply_in_place:
  assumes "fresh \<notin> {a, b}" and "4 \<le> length (h fresh)" and "4 \<le> length (h a)" and "i < 4"
  shows "rd (quat_multiply a a b h) a i = rd (quat_multiply fresh a b h) fresh i"
proof -
  from assms(4) have "i = 0 \<or> i = 1 \<or> i = 2 \<or> i = 3" by auto
  with assms(1) len4 [OF assms(2)] len4 [OF assms(3)] show ?thesis
    by (auto simp: quat_multiply_def Let_def rd_wr length_wr)
qed

text \<open>
  The operations that read their output back: \<^verbatim>\<open>rotationTo\<close> normalises it in place,
  \<^verbatim>\<open>pow\<close> scales it and takes its exponential in place.  Four writes to an array of
  four components followed by an operation in place on it amount to four writes.
\<close>

lemma copy4_of_writes:
  assumes "fresh \<noteq> out" and "4 \<le> length (h fresh)" and "p \<noteq> fresh"
  shows "vec4_copy out fresh (wr (wr (wr (wr h fresh 0 x) fresh 1 y) fresh 2 z) fresh 3 w) p =
         wr (wr (wr (wr h out 0 x) out 1 y) out 2 z) out 3 w p"
  using assms(1,3) len4 [OF assms(2)]
  by (simp add: vec4_copy_def Let_def rd_wr length_wr wr_apply)

lemma nth_upd: "xs[i := x] ! j = (if i = j \<and> i < length xs then x else xs ! j)"
  by (cases "i < length xs") (auto simp: nth_list_update not_less list_update_beyond)

lemma upd_absorb:
  "xs[i := a, j1 := b1, j2 := b2, j3 := b3, i := c] = xs[j1 := b1, j2 := b2, j3 := b3, i := c]"
  by (auto simp: list_eq_iff_nth_eq nth_upd)

lemma wr4_overwrite:
  "wr (wr (wr (wr (wr (wr (wr (wr g q 0 x) q 1 y) q 2 z) q 3 w) q 0 x') q 1 y') q 2 z') q 3 w'
   = wr (wr (wr (wr g q 0 x') q 1 y') q 2 z') q 3 w'"
  by (simp add: wr_def upd_absorb)

lemma rd_after_writes:
  assumes "4 \<le> length (g q)"
  shows "rd (wr (wr (wr (wr g q 0 x) q 1 y) q 2 z) q 3 w) q 0 = x"
    and "rd (wr (wr (wr (wr g q 0 x) q 1 y) q 2 z) q 3 w) q 1 = y"
    and "rd (wr (wr (wr (wr g q 0 x) q 1 y) q 2 z) q 3 w) q 2 = z"
    and "rd (wr (wr (wr (wr g q 0 x) q 1 y) q 2 z) q 3 w) q 3 = w"
  using len4 [OF assms] by (simp_all add: rd_wr length_wr)

lemma normalize_after_writes:
  assumes "4 \<le> length (g q)"
  shows "vec4_normalize q q (wr (wr (wr (wr g q 0 x) q 1 y) q 2 z) q 3 w) =
     (let len = x * x + y * y + z * z + w * w;
          len = (if len > Fin 0 then Fin 1 / Math_sqrt len else len)
      in wr (wr (wr (wr g q 0 (x * len)) q 1 (y * len)) q 2 (z * len)) q 3 (w * len))"
  unfolding vec4_normalize_def rd_after_writes [where g = g and q = q, OF assms] Let_def by (rule wr4_overwrite)

lemma write_normalize_alias:
  assumes "fresh \<noteq> out" and "4 \<le> length (g fresh)" and "p \<noteq> fresh" and "4 \<le> length (g out)"
  shows "vec4_normalize out out (wr (wr (wr (wr g out 0 x) out 1 y) out 2 z) out 3 w) p =
         vec4_copy out fresh
           (vec4_normalize fresh fresh (wr (wr (wr (wr g fresh 0 x) fresh 1 y) fresh 2 z) fresh 3 w)) p"
  unfolding normalize_after_writes [where g = g and q = fresh, OF assms(2)]
    normalize_after_writes [where g = g and q = out, OF assms(4)] Let_def
  by (rule copy4_of_writes [symmetric]) (rule assms)+

lemma quat_rotationTo_alias:
  assumes t: "tmpvec3 c \<notin> {out, fresh}"
      and fr: "fresh \<notin> {out, a, b}" and len: "4 \<le> length (h fresh)" and lo: "4 \<le> length (h out)"
      and p: "p \<noteq> fresh"
  shows "quat_rotationTo c out a b h p = vec4_copy out fresh (quat_rotationTo c fresh a b h) p"
proof -
  let ?t = "tmpvec3 c"
  from t have n: "?t \<noteq> out" "?t \<noteq> fresh" by auto
  from fr have fo: "fresh \<noteq> out" by simp
  have sa: "quat_setAxisAngle out ?t Math_PI g p =
      vec4_copy out fresh (quat_setAxisAngle fresh ?t Math_PI g) p"
    if "4 \<le> length (g fresh)" "4 \<le> length (g out)" for g
    using quat_setAxisAngle_alias [of ?t Math_PI] n fo p that
    unfolding alias_safe4_def by simp
  note wn = copy4_of_writes [where h = h and fresh = fresh and out = out and p = p,
      OF fo len p, simplified]
  have wna: "vec4_normalize out out
       (wr (wr (wr (wr g out 0 x) out (Suc 0) y) out 2 z) out 3 w) p =
     vec4_copy out fresh (vec4_normalize fresh fresh
       (wr (wr (wr (wr g fresh 0 x) fresh (Suc 0) y) fresh 2 z) fresh 3 w)) p"
    if "4 \<le> length (g fresh)" "4 \<le> length (g out)" for g x y z w
    using write_normalize_alias [where g = g and fresh = fresh and out = out and p = p,
        OF fo that(1) p that(2), of x y z w] by simp
  show ?thesis
    using len lo n fo p
    by (simp add: quat_rotationTo_def Let_def sa wn wna rd_wr
        length_vec3_cross length_vec3_normalize)
qed

lemma scale_after_writes:
  assumes "4 \<le> length (g q)"
  shows "vec4_scale q q b (wr (wr (wr (wr g q 0 x) q 1 y) q 2 z) q 3 w) =
     wr (wr (wr (wr g q 0 (x * b)) q 1 (y * b)) q 2 (z * b)) q 3 (w * b)"
proof -
  let ?G = "wr (wr (wr (wr g q 0 x) q 1 y) q 2 z) q 3 w"
  have r: "rd ?G q 0 = x" "rd (wr ?G q 0 (x * b)) q 1 = y"
    "rd (wr (wr ?G q 0 (x * b)) q 1 (y * b)) q 2 = z"
    "rd (wr (wr (wr ?G q 0 (x * b)) q 1 (y * b)) q 2 (z * b)) q 3 = w"
    using len4 [OF assms] by (simp_all add: rd_wr length_wr)
  show ?thesis
    unfolding vec4_scale_def Let_def r by (rule wr4_overwrite)
qed

lemma exp_after_writes:
  assumes "4 \<le> length (g q)"
  shows "quat_exp q q (wr (wr (wr (wr g q 0 x) q 1 y) q 2 z) q 3 w) =
     (let r = Math_sqrt (x * x + y * y + z * z);
          et = Math_exp w;
          s = (if r > Fin 0 then (et * Math_sin r) / r else Fin 0)
      in wr (wr (wr (wr g q 0 (x * s)) q 1 (y * s)) q 2 (z * s)) q 3 (et * Math_cos r))"
  unfolding quat_exp_def rd_after_writes [where g = g and q = q, OF assms] Let_def by (rule wr4_overwrite)

lemma quat_pow_alias: "alias_safe4 (\<lambda>out. quat_pow out a b) {a}"
  unfolding alias_safe4_def
proof (intro allI impI, elim conjE)
  fix out fresh p and h :: store
  assume fr: "fresh \<notin> insert out {a}" and lf: "4 \<le> length (h fresh)"
    and lo: "4 \<le> length (h out)" and p: "p \<noteq> fresh"
  from fr have fo: "fresh \<noteq> out" by simp
  show "quat_pow out a b h p = vec4_copy out fresh (quat_pow fresh a b h) p"
    unfolding quat_pow_def quat_ln_def Let_def
      scale_after_writes [where g = h and q = out, OF lo]
      scale_after_writes [where g = h and q = fresh, OF lf]
      exp_after_writes [where g = h and q = out, OF lo]
      exp_after_writes [where g = h and q = fresh, OF lf]
    by (rule copy4_of_writes [symmetric]) (rule fo lf p)+
qed

lemma length_quat_slerp: "length (quat_slerp out a b t h p) = length (h p)"
  by (simp add: quat_slerp_def Let_def length_wr split_def)

lemma quat_sqlerp_alias:
  assumes t: "{temp1 m, temp2 m} \<inter> {out, fresh} = {}"
      and fr: "fresh \<notin> {out, a, b, c, d}" and lf: "4 \<le> length (h fresh)"
      and lo: "4 \<le> length (h out)" and p: "p \<noteq> fresh"
  shows "quat_sqlerp m out a b c d t h p = vec4_copy out fresh (quat_sqlerp m fresh a b c d t h) p"
proof -
  let ?g = "quat_slerp (temp2 m) b c t (quat_slerp (temp1 m) a d t h)"
  from t fr have "fresh \<notin> insert out {temp1 m, temp2 m}" by auto
  moreover from lf lo have "4 \<le> length (?g fresh)" "4 \<le> length (?g out)"
    by (simp_all add: length_quat_slerp)
  ultimately show ?thesis
    using quat_slerp_alias [of "temp1 m" "temp2 m" "Fin 2 * t * (Fin 1 - t)"] p
    unfolding alias_safe4_def quat_sqlerp_def Let_def by blast
qed

text \<open>
  The operations of vec3, vec4 and quat, whose implementations are in the sources.  Every one
  of them that writes an output array and reads an input array treats aliasing correctly:
  whichever of its input arrays the output array is, the call leaves every array as the call
  on a distinct output array followed by a copy does.  The arrays of the closures of
  \<^verbatim>\<open>rotationTo\<close> and \<^verbatim>\<open>sqlerp\<close> are out of the caller's reach and are neither output.
  The angle that \<^verbatim>\<open>getAxisAngle\<close> returns does not depend on the output array.  In
  particular \<^verbatim>\<open>quat.multiply(a, a, b)\<close> leaves in \<open>a\<close> the four components that
  \<^verbatim>\<open>quat.multiply(fresh, a, b)\<close> leaves in \<open>fresh\<close>.

  This is the part of C8 that the sources decide.  The operations of mat4 and quat2 have
  only their checking wrappers in the sources: each asserts the class of its arrays, then
  calls an implementation that is not there.  Nothing is proved about them, so C8, which
  speaks of every operation with an output array, is left open.  Nor do the operations
  proved here all read their inputs before their first write: \<^verbatim>\<open>pow\<close> and \<^verbatim>\<open>rotationTo\<close>
  read the output array back between the calls they are made of.
\<close>

theorem out_alias_safe:
  "alias_safe3 (\<lambda>out. vec3_copy out a) {a} \<and>
   alias_safe3 (\<lambda>out. vec3_add out a b) {a, b} \<and>
   alias_safe3 (\<lambda>out. vec3_subtract out a b) {a, b} \<and>
   alias_safe3 (\<lambda>out. vec3_multiply out a b) {a, b} \<and>
   alias_safe3 (\<lambda>out. vec3_divide out a b) {a, b} \<and>
   alias_safe3 (\<lambda>out. vec3_ceil out a) {a} \<and>
   alias_safe3 (\<lambda>out. vec3_floor out a) {a} \<and>
   alias_safe3 (\<lambda>out. vec3_min out a b) {a, b} \<and>
   alias_safe3 (\<lambda>out. vec3_max out a b) {a, b} \<and>
   alias_safe3 (\<lambda>out. vec3_round out a) {a} \<and>
   alias_safe3 (\<lambda>out. vec3_scale out a s) {a} \<and>
   alias_safe3 (\<lambda>out. vec3_scaleAndAdd out a b s) {a, b} \<and>
   alias_safe3 (\<lambda>out. vec3_negate out a) {a} \<and>
   alias_safe3 (\<lambda>out. vec3_inverse out a) {a} \<and>
   alias_safe3 (\<lambda>out. vec3_normalize out a) {a} \<and>
   alias_safe3 (\<lambda>out. vec3_cross out a b) {a, b} \<and>
   alias_safe3 (\<lambda>out. vec3_lerp out a b t) {a, b} \<and>
   alias_safe3 (\<lambda>out. vec3_slerp out a b t) {a, b} \<and>
   alias_safe3 (\<lambda>out. vec3_hermite out a b c d t) {a, b, c, d} \<and>
   alias_safe3 (\<lambda>out. vec3_bezier out a b c d t) {a, b, c, d} \<and>
   alias_safe3 (\<lambda>out. vec3_transformMat4 out a b) {a, b} \<and>
   alias_safe3 (\<lambda>out. vec3_transformQuat out a b) {a, b} \<and>
   alias_safe3 (\<lambda>out. vec3_rotateX out a b rad) {a, b} \<and>
   alias_safe3 (\<lambda>out. vec3_rotateY out a b rad) {a, b} \<and>
   alias_safe3 (\<lambda>out. vec3_rotateZ out a b rad) {a, b} \<and>
   alias_safe4 (\<lambda>out. vec4_copy out a) {a} \<and>
   alias_safe4 (\<lambda>out. vec4_add out a b) {a, b} \<and>
   alias_safe4 (\<lambda>out. vec4_subtract out a b) {a, b} \<and>
   alias_safe4 (\<lambda>out. vec4_multiply out a b) {a, b} \<and>
   alias_safe4 (\<lambda>out. vec4_divide out a b) {a, b} \<and>
   alias_safe4 (\<lambda>out. vec4_ceil out a) {a} \<and>
   alias_safe4 (\<lambda>out. vec4_floor out a) {a} \<and>
   alias_safe4 (\<lambda>out. vec4_min out a b) {a, b} \<and>
   alias_safe4 (\<lambda>out. vec4_max out a b) {a, b} \<and>
   alias_safe4 (\<lambda>out. vec4_round out a) {a} \<and>
   alias_safe4 (\<lambda>out. vec4_scale out a s) {a} \<and>
   alias_safe4 (\<lambda>out. vec4_scaleAndAdd out a b s) {a, b} \<and>
   alias_safe4 (\<lambda>out. vec4_negate out a) {a} \<and>
   alias_safe4 (\<lambda>out. vec4_inverse out a) {a} \<and>
   alias_safe4 (\<lambda>out. vec4_normalize out a) {a} \<and>
   alias_safe4 (\<lambda>out. vec4_cross out a b c) {a, b, c} \<and>
   alias_safe4 (\<lambda>out. vec4_lerp out a b t) {a, b} \<and>
   alias_safe4 (\<lambda>out. vec4_transformMat4 out a b) {a, b} \<and>
   alias_safe4 (\<lambda>out. vec4_transformQuat out a b) {a, b} \<and>
   alias_safe4 (\<lambda>out. quat_setAxisAngle out a rad) {a} \<and>
   alias_safe4 (\<lambda>out. quat_multiply out a b) {a, b} \<and>
   alias_safe4 (\<lambda>out. quat_rotateX out a rad) {a} \<and>
   alias_safe4 (\<lambda>out. quat_rotateY out a rad) {a} \<and>
   alias_safe4 (\<lambda>out. quat_rotateZ out a rad) {a} \<and>
   alias_safe4 (\<lambda>out. quat_calculateW out a) {a} \<and>
   alias_safe4 (\<lambda>out. quat_exp out a) {a} \<and>
   alias_safe4 (\<lambda>out. quat_ln out a) {a} \<and>
   alias_safe4 (\<lambda>out. quat_slerp out a b t) {a, b} \<and>
   alias_safe4 (\<lambda>out. quat_invert out a) {a} \<and>
   alias_safe4 (\<lambda>out. quat_conjugate out a) {a} \<and>
   alias_safe4 (\<lambda>out. quat_pow out a s) {a} \<and>
   alias_safe3 (\<lambda>out h. snd (quat_getAxisAngle out a h)) {a} \<and>
   (\<forall>out fresh h. fst (quat_getAxisAngle out a h) = fst (quat_getAxisAngle fresh a h)) \<and>
   (\<forall>out fresh h p.
      tmpvec3 rc \<notin> {out, fresh} \<and> fresh \<notin> {out, a, b} \<and>
      4 \<le> length (h fresh) \<and> 4 \<le> length (h out) \<and> p \<noteq> fresh \<longrightarrow>
      quat_rotationTo rc out a b h p = vec4_copy out fresh (quat_rotationTo rc fresh a b h) p) \<and>
   (\<forall>out fresh h p.
      {temp1 sc, temp2 sc} \<inter> {out, fresh} = {} \<and> fresh \<notin> {out, a, b, c, d} \<and>
      4 \<le> length (h fresh) \<and> 4 \<le> length (h out) \<and> p \<noteq> fresh \<longrightarrow>
      quat_sqlerp sc out a b c d t h p = vec4_copy out fresh (quat_sqlerp sc fresh a b c d t h) p) \<and>
   (\<forall>fresh h i.
      fresh \<notin> {a, b} \<and> 4 \<le> length (h fresh) \<and> 4 \<le> length (h a) \<and> i < 4 \<longrightarrow>
      rd (quat_multiply a a b h) a i = rd (quat_multiply fresh a b h) fresh i)"
proof -
  have rot: "\<forall>out fresh h p.
      tmpvec3 rc \<notin> {out, fresh} \<and> fresh \<notin> {out, a, b} \<and>
      4 \<le> length (h fresh) \<and> 4 \<le> length (h out) \<and> p \<noteq> fresh \<longrightarrow>
      quat_rotationTo rc out a b h p = vec4_copy out fresh (quat_rotationTo rc fresh a b h) p"
  proof (intro allI impI, elim conjE)
    fix out fresh p and h :: store
    assume "tmpvec3 rc \<notin> {out, fresh}" "fresh \<notin> {out, a, b}"
      "4 \<le> length (h fresh)" "4 \<le> length (h out)" "p \<noteq> fresh"
    then show "quat_rotationTo rc out a b h p =
        vec4_copy out fresh (quat_rotationTo rc fresh a b h) p"
      by (rule quat_rotationTo_alias)
  qed
  have sq: "\<forall>out fresh h p.
      {temp1 sc, temp2 sc} \<inter> {out, fresh} = {} \<and> fresh \<notin> {out, a, b, c, d} \<and>
      4 \<le> length (h fresh) \<and> 4 \<le> length (h out) \<and> p \<noteq> fresh \<longrightarrow>
      quat_sqlerp sc out a b c d t h p = vec4_copy out fresh (quat_sqlerp sc fresh a b c d t h) p"
  proof (intro allI impI, elim conjE)
    fix out fresh p and h :: store
    assume "{temp1 sc, temp2 sc} \<inter> {out, fresh} = {}" "fresh \<notin> {out, a, b, c, d}"
      "4 \<le> length (h fresh)" "4 \<le> length (h out)" "p \<noteq> fresh"
    then show "quat_sqlerp sc out a b c d t h p =
        vec4_copy out fresh (quat_sqlerp sc fresh a b c d t h) p"
      by (rule quat_sqlerp_alias)
  qed
  have mul: "\<forall>fresh h i.
      fresh \<notin> {a, b} \<and> 4 \<le> length (h fresh) \<and> 4 \<le> length (h a) \<and> i < 4 \<longrightarrow>
      rd (quat_multiply a a b h) a i = rd (quat_multiply fresh a b h) fresh i"
  proof (intro allI impI, elim conjE)
    fix fresh :: ref and i :: nat and h :: store
    assume "fresh \<notin> {a, b}" "4 \<le> length (h fresh)" "4 \<le> length (h a)" "i < 4"
    then show "rd (quat_multiply a a b h) a i = rd (quat_multiply fresh a b h) fresh i"
      by (rule quat_multiply_in_place)
  qed
  have ang: "\<forall>out fresh h. fst (quat_getAxisAngle out a h) = fst (quat_getAxisAngle fresh a h)"
    by (intro allI) (rule quat_getAxisAngle_angle)
  show ?thesis
    by (intro conjI)
       (fact rot sq mul ang quat_pow_alias quat_getAxisAngle_alias
        vec3_copy_alias vec3_add_alias vec3_subtract_alias vec3_multiply_alias
        vec3_divide_alias vec3_ceil_alias vec3_floor_alias vec3_min_alias
        vec3_max_alias vec3_round_alias vec3_scale_alias vec3_scaleAndAdd_alias
        vec3_negate_alias vec3_inverse_alias vec3_normalize_alias vec3_cross_alias
        vec3_lerp_alias vec3_slerp_alias vec3_hermite_alias vec3_bezier_alias
        vec3_transformMat4_alias vec3_transformQuat_alias vec3_rotateX_alias vec3_rotateY_alias
        vec3_rotateZ_alias vec4_copy_alias vec4_add_alias vec4_subtract_alias
        vec4_multiply_alias vec4_divide_alias vec4_ceil_alias vec4_floor_alias
        vec4_min_alias vec4_max_alias vec4_round_alias vec4_scale_alias
        vec4_scaleAndAdd_alias vec4_negate_alias vec4_inverse_alias vec4_normalize_alias
        vec4_cross_alias vec4_lerp_alias vec4_transformMat4_alias vec4_transformQuat_alias
        quat_setAxisAngle_alias quat_multiply_alias quat_rotateX_alias quat_rotateY_alias
        quat_rotateZ_alias quat_calculateW_alias quat_exp_alias quat_ln_alias
        quat_slerp_alias quat_invert_alias quat_conjugate_alias)+
qed

theorem out_alias_safe_witness:
  "(5::nat) \<notin> insert 3 {3, 4} \<and> 4 \<le> length (two_quats 5) \<and> 4 \<le> length (two_quats 3) \<and>
   (3::nat) \<noteq> 5 \<and> (2::nat) < 4 \<and> tmpvec3 module_closure \<notin> {3, 5} \<and>
   quat_multiply 3 3 4 two_quats 3 = [Fin 2, Fin (- 1), Fin 4, Fin (- 3)] \<and>
   vec4_copy 3 5 (quat_multiply 5 3 4 two_quats) 3 = [Fin 2, Fin (- 1), Fin 4, Fin (- 3)] \<and>
   rd (quat_multiply 3 3 4 two_quats) 3 2 = Fin 4 \<and>
   rd (quat_multiply 5 3 4 two_quats) 5 2 = Fin 4 \<and>
   vec4_transformMat4 3 3 4 two_quats 3 = vec4_copy 3 5 (vec4_transformMat4 5 3 4 two_quats) 3 \<and>
   quat_rotationTo module_closure 3 3 4 two_quats 3 =
     vec4_copy 3 5 (quat_rotationTo module_closure 5 3 4 two_quats) 3"
proof -
  have hyp: "(5::nat) \<notin> insert 3 {3, 4}" "4 \<le> length (two_quats 5)" "4 \<le> length (two_quats 3)"
    "(3::nat) \<noteq> 5" "(2::nat) < 4" "tmpvec3 module_closure \<notin> {3, 5}"
    by (simp_all add: two_quats_def store_of_def module_closure_def)
  have val: "quat_multiply 3 3 4 two_quats 3 = [Fin 2, Fin (- 1), Fin 4, Fin (- 3)]"
    by (simp add: quat_multiply_def Let_def two_quats_def store_of_def rd_def wr_def
        minus_number_def)
  then have val2: "rd (quat_multiply 3 3 4 two_quats) 3 2 = Fin 4"
    by (simp add: rd_def)
  note inst = out_alias_safe [where a = 3 and b = 4 and rc = module_closure]
  from inst have m: "alias_safe4 (\<lambda>out. quat_multiply out 3 4) {3, 4}"
    and tm: "alias_safe4 (\<lambda>out. vec4_transformMat4 out 3 4) {3, 4}"
    and rot: "\<forall>out fresh h p.
      tmpvec3 module_closure \<notin> {out, fresh} \<and> fresh \<notin> {out, 3, 4} \<and>
      4 \<le> length (h fresh) \<and> 4 \<le> length (h out) \<and> p \<noteq> fresh \<longrightarrow>
      quat_rotationTo module_closure out 3 4 h p =
        vec4_copy out fresh (quat_rotationTo module_closure fresh 3 4 h) p"
    and mul: "\<forall>fresh h i.
      fresh \<notin> {3, 4} \<and> 4 \<le> length (h fresh) \<and> 4 \<le> length (h 3) \<and> i < 4 \<longrightarrow>
      rd (quat_multiply 3 3 4 h) 3 i = rd (quat_multiply fresh 3 4 h) fresh i"
    by blast+
  show ?thesis
  proof (intro conjI)
    show "vec4_copy 3 5 (quat_multiply 5 3 4 two_quats) 3 = [Fin 2, Fin (- 1), Fin 4, Fin (- 3)]"
      using m [unfolded alias_safe4_def, rule_format, of 5 3 two_quats 3] hyp val by simp
    show "rd (quat_multiply 5 3 4 two_quats) 5 2 = Fin 4"
      using mul [rule_format, of 5 two_quats 2] hyp val2 by simp
    show "vec4_transformMat4 3 3 4 two_quats 3 =
        vec4_copy 3 5 (vec4_transformMat4 5 3 4 two_quats) 3"
      using tm [unfolded alias_safe4_def, rule_format, of 5 3 two_quats 3] hyp by simp
    show "quat_rotationTo module_closure 3 3 4 two_quats 3 =
        vec4_copy 3 5 (quat_rotationTo module_closure 5 3 4 two_quats) 3"
      using rot [rule_format, of 3 5 two_quats 3] hyp by simp
  qed (fact hyp val val2)+
qed

end
